theory Spec2Isabelle
  imports Complex_Main
begin

section \<open>Numbers of the program\<close>

text \<open>
  The program computes with IEEE double values (Python floats, numpy and pandas
  float64).  Three things about them decide what the code does and are kept here:
  the undefined value NaN, the two infinities that a numpy division by zero yields,
  and the rule that every ordered comparison with NaN is false.  The two signed zeros
  are one value.  Money values and indicators are exact reals: their rounding is left
  out.  Rounding is modelled where the program reads an integer off a double, in the
  number of shares to buy (see the section on rounding).
\<close>

datatype fval = Fin real | PInf | NInf | NaN

fun fneg :: "fval \<Rightarrow> fval" where
  "fneg (Fin a) = Fin (- a)"
| "fneg PInf = NInf"
| "fneg NInf = PInf"
| "fneg NaN = NaN"

fun fadd :: "fval \<Rightarrow> fval \<Rightarrow> fval" where
  "fadd (Fin a) (Fin b) = Fin (a + b)"
| "fadd NaN _ = NaN"
| "fadd _ NaN = NaN"
| "fadd PInf NInf = NaN"
| "fadd NInf PInf = NaN"
| "fadd PInf _ = PInf"
| "fadd _ PInf = PInf"
| "fadd NInf _ = NInf"
| "fadd _ NInf = NInf"

definition fsub :: "fval \<Rightarrow> fval \<Rightarrow> fval" where
  "fsub a b = fadd a (fneg b)"

text \<open>The sign of an infinite product or quotient; a zero factor gives NaN.\<close>

definition inf_signed :: "real \<Rightarrow> fval" where
  "inf_signed s = (if s = 0 then NaN else if 0 < s then PInf else NInf)"

fun fmul :: "fval \<Rightarrow> fval \<Rightarrow> fval" where
  "fmul (Fin a) (Fin b) = Fin (a * b)"
| "fmul NaN _ = NaN"
| "fmul _ NaN = NaN"
| "fmul (Fin a) PInf = inf_signed a"
| "fmul (Fin a) NInf = inf_signed (- a)"
| "fmul PInf (Fin b) = inf_signed b"
| "fmul NInf (Fin b) = inf_signed (- b)"
| "fmul PInf PInf = PInf"
| "fmul NInf NInf = PInf"
| "fmul PInf NInf = NInf"
| "fmul NInf PInf = NInf"

text \<open>
  numpy division: a finite value over zero is an infinity of its sign, zero over
  zero and infinity over infinity are NaN, and nothing is raised.
\<close>

fun fdiv :: "fval \<Rightarrow> fval \<Rightarrow> fval" where
  "fdiv (Fin a) (Fin b) = (if b = 0 then inf_signed a else Fin (a / b))"
| "fdiv NaN _ = NaN"
| "fdiv _ NaN = NaN"
| "fdiv (Fin a) PInf = Fin 0"
| "fdiv (Fin a) NInf = Fin 0"
| "fdiv PInf (Fin b) = (if 0 \<le> b then PInf else NInf)"
| "fdiv NInf (Fin b) = (if 0 \<le> b then NInf else PInf)"
| "fdiv PInf PInf = NaN"
| "fdiv PInf NInf = NaN"
| "fdiv NInf PInf = NaN"
| "fdiv NInf NInf = NaN"

fun flt :: "fval \<Rightarrow> fval \<Rightarrow> bool" where
  "flt (Fin a) (Fin b) = (a < b)"
| "flt NaN _ = False"
| "flt _ NaN = False"
| "flt _ NInf = False"
| "flt PInf _ = False"
| "flt NInf _ = True"
| "flt _ PInf = True"

fun fle :: "fval \<Rightarrow> fval \<Rightarrow> bool" where
  "fle (Fin a) (Fin b) = (a \<le> b)"
| "fle NaN _ = False"
| "fle _ NaN = False"
| "fle NInf _ = True"
| "fle _ PInf = True"
| "fle _ NInf = False"
| "fle PInf _ = False"

definition fgt :: "fval \<Rightarrow> fval \<Rightarrow> bool" where
  "fgt a b = flt b a"

definition fge :: "fval \<Rightarrow> fval \<Rightarrow> bool" where
  "fge a b = fle b a"

text \<open>The operator \<open>==\<close> on floats: NaN equals nothing, itself included.\<close>

definition feq :: "fval \<Rightarrow> fval \<Rightarrow> bool" where
  "feq a b = (a \<noteq> NaN \<and> a = b)"

fun fabs :: "fval \<Rightarrow> fval" where
  "fabs (Fin a) = Fin \<bar>a\<bar>"
| "fabs PInf = PInf"
| "fabs NInf = PInf"
| "fabs NaN = NaN"

fun fsqrt :: "fval \<Rightarrow> fval" where
  "fsqrt (Fin a) = (if a < 0 then NaN else Fin (sqrt a))"
| "fsqrt PInf = PInf"
| "fsqrt NInf = NaN"
| "fsqrt NaN = NaN"

definition is_fin :: "fval \<Rightarrow> bool" where
  "is_fin v = (case v of Fin _ \<Rightarrow> True | _ \<Rightarrow> False)"

definition of_py_int :: "int \<Rightarrow> fval" where
  "of_py_int n = Fin (of_int n)"

datatype error = ValueError | OverflowError | IndexError | KeyError | ZeroDivisionError | TypeError

text \<open>
  Python's \<open>int(x)\<close> on a float: truncation towards zero; it raises ValueError on
  NaN and OverflowError on an infinity.
\<close>

definition py_int :: "fval \<Rightarrow> error + int" where
  "py_int v = (case v of
      Fin r \<Rightarrow> Inr (if 0 \<le> r then \<lfloor>r\<rfloor> else \<lceil>r\<rceil>)
    | NaN \<Rightarrow> Inl ValueError
    | _ \<Rightarrow> Inl OverflowError)"

section \<open>Rounding to a double\<close>

text \<open>
  One result of the program is an integer read off a double: the number of shares,
  \<open>int(capital * 0.95 / price)\<close>.  There the last bit decides: \<open>1 * 0.95 / 0.05\<close>
  is \<open>18.999999999999996\<close> as a double and 19 as a real.  So the product and the
  quotient of that expression are rounded as IEEE binary64 arithmetic rounds them: to
  the nearest value with a significand of 53 bits, a tie to the even one, exponents
  from \<open>-1022\<close> up, overflow to an infinity.  The literal \<open>0.95\<close> is the double
  nearest to it.
\<close>

definition pow2 :: "int \<Rightarrow> real" where
  "pow2 k = (if 0 \<le> k then 2 ^ nat k else 1 / 2 ^ nat (- k))"

definition round_half_even :: "real \<Rightarrow> int" where
  "round_half_even r =
     (let f = \<lfloor>r\<rfloor>; d = r - of_int f
      in if d < 1 / 2 then f else if 1 / 2 < d then f + 1 else if even f then f else f + 1)"

definition round64 :: "real \<Rightarrow> fval" where
  "round64 x =
     (if x = 0 then Fin 0
      else (let e = max \<lfloor>log 2 \<bar>x\<bar>\<rfloor> (- 1022);
                ulp = pow2 (e - 52);
                y = of_int (round_half_even (\<bar>x\<bar> / ulp)) * ulp
            in if pow2 1024 \<le> y then (if 0 < x then PInf else NInf)
               else Fin (sgn x * y)))"

definition fmul64 :: "fval \<Rightarrow> fval \<Rightarrow> fval" where
  "fmul64 a b = (case (a, b) of (Fin x, Fin y) \<Rightarrow> round64 (x * y) | _ \<Rightarrow> fmul a b)"

definition fdiv64 :: "fval \<Rightarrow> fval \<Rightarrow> fval" where
  "fdiv64 a b =
     (case (a, b) of
        (Fin x, Fin y) \<Rightarrow> (if y = 0 then inf_signed x else round64 (x / y))
      | _ \<Rightarrow> fdiv a b)"

definition py_095 :: fval where
  "py_095 = round64 (95 / 100)"

section \<open>numpy reductions used by the analyzer\<close>

definition fsum :: "fval list \<Rightarrow> fval" where
  "fsum xs = foldl fadd (Fin 0) xs"

text \<open>\<open>np.mean\<close> and \<open>np.std\<close> (population form); both are NaN on an empty array.\<close>

definition np_mean :: "fval list \<Rightarrow> fval" where
  "np_mean xs = (if xs = [] then NaN else fdiv (fsum xs) (Fin (real (length xs))))"

definition np_std :: "fval list \<Rightarrow> fval" where
  "np_std xs =
     (let m = np_mean xs
      in fsqrt (np_mean (map (\<lambda>x. fmul (fabs (fsub x m)) (fabs (fsub x m))) xs)))"

text \<open>\<open>np.diff(a) / a[:-1]\<close>.\<close>

fun np_diff :: "fval list \<Rightarrow> fval list" where
  "np_diff (x # y # ys) = fsub y x # np_diff (y # ys)"
| "np_diff _ = []"

definition np_divide :: "fval list \<Rightarrow> fval list \<Rightarrow> fval list" where
  "np_divide xs ys = map (\<lambda>(x, y). fdiv x y) (zip xs ys)"

text \<open>\<open>np.maximum\<close> and \<open>np.minimum\<close> return NaN as soon as one side is NaN.\<close>

definition np_maximum :: "fval \<Rightarrow> fval \<Rightarrow> fval" where
  "np_maximum a b = (if a = NaN \<or> b = NaN then NaN else if flt a b then b else a)"

definition np_minimum :: "fval \<Rightarrow> fval \<Rightarrow> fval" where
  "np_minimum a b = (if a = NaN \<or> b = NaN then NaN else if flt b a then b else a)"

fun accumulate_from :: "fval \<Rightarrow> fval list \<Rightarrow> fval list" where
  "accumulate_from m [] = []"
| "accumulate_from m (x # xs) = np_maximum m x # accumulate_from (np_maximum m x) xs"

definition maximum_accumulate :: "fval list \<Rightarrow> fval list" where
  "maximum_accumulate xs = (case xs of [] \<Rightarrow> [] | x # rest \<Rightarrow> x # accumulate_from x rest)"

definition np_min :: "fval list \<Rightarrow> fval" where
  "np_min xs = (case xs of [] \<Rightarrow> NaN | x # rest \<Rightarrow> foldl np_minimum x rest)"

section \<open>The backtest simulator\<close>

text \<open>
  \<open>BacktestExecutor.execute_backtest\<close> reads two frames: \<open>data\<close> (only its last
  close and its last index label, for the closing liquidation) and \<open>signals\<close> (row by
  row: the index label, \<open>Close\<close> and \<open>signal\<close>).  A frame is the list of its rows;
  index labels are numbers.  The \<open>signal\<close> column written by the strategies holds
  integers.
\<close>

record data_bar =
  date :: nat
  Close :: fval

record sig_bar = data_bar +
  signal :: int

text \<open>A trade dictionary: key \<open>type\<close> is the constructor; a BUY carries \<open>cost\<close>, a SELL \<open>proceeds\<close>.\<close>

datatype trade =
    BUY (t_date: nat) (t_shares: int) (t_price: fval) (cost: fval) (t_capital: fval)
  | SELL (t_date: nat) (t_shares: int) (t_price: fval) (proceeds: fval) (t_capital: fval)

fun is_sell :: "trade \<Rightarrow> bool" where
  "is_sell (SELL _ _ _ _ _) = True"
| "is_sell (BUY _ _ _ _ _) = False"

record position =
  p_date :: nat
  p_shares :: int
  p_price :: fval
  p_equity :: fval
  p_capital :: fval
  market_value :: fval

text \<open>The variables of the loop: \<open>capital\<close>, \<open>shares\<close>, \<open>trades\<close>, \<open>equity\<close>, \<open>positions\<close>.\<close>

record sim_state =
  capital :: fval
  shares :: int
  trades :: "trade list"
  equity :: "fval list"
  positions :: "position list"

text \<open>The configuration dictionary; a missing key is \<open>None\<close> and read with a default.\<close>

record config =
  initial_capital :: "fval option"
  commission :: "fval option"
  slippage :: "fval option"

definition dict_get :: "'a option \<Rightarrow> 'a \<Rightarrow> 'a" where
  "dict_get v d = (case v of None \<Rightarrow> d | Some x \<Rightarrow> x)"

definition default_commission :: fval where
  "default_commission = Fin (1 / 1000)"

definition default_slippage :: fval where
  "default_slippage = Fin (5 / 10000)"

definition default_config :: config where
  "default_config =
     \<lparr>initial_capital = Some (Fin 100000), commission = Some default_commission,
      slippage = Some default_slippage\<rparr>"

definition resolve_config :: "config option \<Rightarrow> config" where
  "resolve_config config = (case config of None \<Rightarrow> default_config | Some c \<Rightarrow> c)"

definition cfg_initial_capital :: "config \<Rightarrow> fval" where
  "cfg_initial_capital cfg = dict_get (initial_capital cfg) (Fin 100000)"

definition cfg_commission :: "config \<Rightarrow> fval" where
  "cfg_commission cfg = dict_get (commission cfg) default_commission"

definition cfg_slippage :: "config \<Rightarrow> fval" where
  "cfg_slippage cfg = dict_get (slippage cfg) default_slippage"

text \<open>Lines 479 to 490: the equity point and the position record of one bar.\<close>

definition record_point :: "sig_bar \<Rightarrow> sim_state \<Rightarrow> sim_state" where
  "record_point b st =
     (let price = Close b;
          current_equity = fadd (capital st) (fmul (of_py_int (shares st)) price)
      in st\<lparr>equity := equity st @ [current_equity],
            positions := positions st @
              [\<lparr>p_date = date b, p_shares = shares st, p_price = price,
                p_equity = current_equity, p_capital = capital st,
                market_value = fmul (of_py_int (shares st)) price\<rparr>]\<rparr>)"

text \<open>The body of the loop, lines 445 to 490, for one row of \<open>signals\<close>.\<close>

definition step :: "fval \<Rightarrow> fval \<Rightarrow> sim_state \<Rightarrow> sig_bar \<Rightarrow> error + sim_state" where
  "step comm slip st b =
     (let price = Close b in
      if signal b = 1 \<and> shares st = 0 then
        (case py_int (fdiv64 (fmul64 (capital st) py_095) price) of
           Inl e \<Rightarrow> Inl e
         | Inr shares_to_buy \<Rightarrow>
             if 0 < shares_to_buy then
               (let cost = fmul (fmul (of_py_int shares_to_buy) price)
                                (fadd (fadd (Fin 1) comm) slip);
                    capital' = fsub (capital st) cost
                in Inr (record_point b
                     (st\<lparr>capital := capital', shares := shares_to_buy,
                         trades := trades st @
                           [BUY (date b) shares_to_buy price cost
                              (fadd capital' (fmul (of_py_int shares_to_buy) price))]\<rparr>)))
             else Inr (record_point b st))
      else if signal b = - 1 \<and> 0 < shares st then
        (let proceeds = fmul (fmul (of_py_int (shares st)) price)
                             (fsub (fsub (Fin 1) comm) slip);
             capital' = fadd (capital st) proceeds
         in Inr (record_point b
              (st\<lparr>capital := capital', shares := 0,
                  trades := trades st @
                    [SELL (date b) (shares st) price proceeds capital']\<rparr>)))
      else Inr (record_point b st))"

text \<open>The loop \<open>for i in range(len(signals))\<close>; an exception ends it.\<close>

fun run_bars :: "fval \<Rightarrow> fval \<Rightarrow> sim_state \<Rightarrow> sig_bar list \<Rightarrow> error + sim_state" where
  "run_bars comm slip st [] = Inr st"
| "run_bars comm slip st (b # bs) =
     (case step comm slip st b of
        Inl e \<Rightarrow> Inl e
      | Inr st' \<Rightarrow> run_bars comm slip st' bs)"

definition init_state :: "fval \<Rightarrow> sim_state" where
  "init_state ic = \<lparr>capital = ic, shares = 0, trades = [], equity = [ic], positions = []\<rparr>"

text \<open>
  Lines 492 to 505: the closing liquidation.  \<open>data['Close'].iloc[-1]\<close> raises
  IndexError on a frame without rows.
\<close>

definition liquidate :: "fval \<Rightarrow> fval \<Rightarrow> data_bar list \<Rightarrow> sim_state \<Rightarrow> error + sim_state" where
  "liquidate comm slip data st =
     (if 0 < shares st then
        (case data of
           [] \<Rightarrow> Inl IndexError
         | _ # _ \<Rightarrow>
            (let final_price = Close (last data);
                 proceeds = fmul (fmul (of_py_int (shares st)) final_price)
                                 (fsub (fsub (Fin 1) comm) slip);
                 capital' = fadd (capital st) proceeds
             in Inr (st\<lparr>capital := capital',
                        trades := trades st @
                          [SELL (date (last data)) (shares st) final_price proceeds capital']\<rparr>)))
      else Inr st)"

section \<open>The performance analyzer\<close>

record summary_rec =
  s_initial_capital :: fval
  s_final_capital :: fval
  s_total_return :: fval
  s_absolute_return :: fval
  s_sharpe_ratio :: fval
  s_sortino_ratio :: fval
  s_calmar_ratio :: fval
  s_max_drawdown :: fval
  s_volatility :: fval
  s_win_rate :: fval
  s_total_trades :: nat

record metrics_rec =
  sharpe_ratio :: fval
  sortino_ratio :: fval
  calmar_ratio :: fval
  max_drawdown :: fval
  volatility :: fval
  win_rate :: fval

record backtest_result =
  summary :: summary_rec
  r_equity :: "fval list"
  r_trades :: "trade list"
  r_positions :: "position list"
  daily_returns :: "fval list"
  metrics :: metrics_rec

text \<open>
  Line 527, \<open>(final_capital - initial_capital) / initial_capital\<close>.  The seed of
  the equity list is the Python number of the configuration and every later entry is
  a numpy scalar (a sum with the numpy price), so the division raises
  ZeroDivisionError exactly when no bar was appended and the initial capital is zero;
  with a numpy operand it yields an infinity or NaN instead.  This is the analyzer as
  \<open>execute_backtest\<close> calls it, on the equity list its loop has built; called
  directly with a list of Python floats and the initial capital zero, the division
  raises for a list of any length.
\<close>

definition total_return_of :: "fval list \<Rightarrow> fval \<Rightarrow> error + fval" where
  "total_return_of eq ic =
     (if length eq = 1 \<and> feq ic (Fin 0) then Inl ZeroDivisionError
      else Inr (fdiv (fsub (last eq) ic) ic))"

text \<open>Lines 555 to 558.\<close>

definition sell_trades :: "trade list \<Rightarrow> trade list" where
  "sell_trades ts = filter is_sell ts"

definition winning_trades :: "trade list \<Rightarrow> nat" where
  "winning_trades ts = length (filter (\<lambda>t. fgt (proceeds t) (Fin 0)) (sell_trades ts))"

definition total_trades :: "trade list \<Rightarrow> nat" where
  "total_trades ts = length (sell_trades ts)"

definition win_rate_of :: "trade list \<Rightarrow> fval" where
  "win_rate_of ts =
     (if 0 < total_trades ts then Fin (real (winning_trades ts) / real (total_trades ts))
      else Fin 0)"

text \<open>Lines 531 to 552.\<close>

definition daily_returns_of :: "fval list \<Rightarrow> fval list" where
  "daily_returns_of eq = np_divide (np_diff eq) (butlast eq)"

definition volatility_of :: "fval list \<Rightarrow> fval" where
  "volatility_of eq = fmul (np_std (daily_returns_of eq)) (Fin (sqrt 252))"

definition sharpe_ratio_of :: "fval list \<Rightarrow> fval" where
  "sharpe_ratio_of eq =
     (let mean_return = np_mean (daily_returns_of eq); vol = volatility_of eq
      in if fgt vol (Fin 0) then fdiv (fmul mean_return (Fin 252)) vol else Fin 0)"

definition max_drawdown_of :: "fval list \<Rightarrow> fval" where
  "max_drawdown_of eq =
     (let peak = maximum_accumulate eq;
          drawdown = np_divide (map (\<lambda>(e, p). fsub e p) (zip eq peak)) peak
      in np_min drawdown)"

definition downside_deviation_of :: "fval list \<Rightarrow> fval" where
  "downside_deviation_of eq =
     (let negative_returns = filter (\<lambda>r. flt r (Fin 0)) (daily_returns_of eq)
      in if 0 < length negative_returns then np_std negative_returns else Fin 0)"

definition sortino_ratio_of :: "fval list \<Rightarrow> fval" where
  "sortino_ratio_of eq =
     (let mean_return = np_mean (daily_returns_of eq); dd = downside_deviation_of eq
      in if fgt dd (Fin 0) then fdiv (fmul mean_return (Fin 252)) dd else Fin 0)"

definition calmar_ratio_of :: "fval \<Rightarrow> fval \<Rightarrow> fval" where
  "calmar_ratio_of total_return mdd =
     (if \<not> feq mdd (Fin 0)
      then fdiv (fdiv (fmul total_return (Fin 252)) (Fin 365)) (fabs mdd)
      else Fin 0)"

definition calculate_performance_metrics ::
  "fval list \<Rightarrow> trade list \<Rightarrow> position list \<Rightarrow> config \<Rightarrow> error + backtest_result" where
  "calculate_performance_metrics eq ts ps cfg =
     (let ic = cfg_initial_capital cfg in
      if eq = [] then Inl IndexError
      else
        (case total_return_of eq ic of
           Inl e \<Rightarrow> Inl e
         | Inr total_return \<Rightarrow>
            (let final_capital = last eq;
                 absolute_return = fsub final_capital ic;
                 vol = volatility_of eq;
                 sharpe = sharpe_ratio_of eq;
                 mdd = max_drawdown_of eq;
                 sortino = sortino_ratio_of eq;
                 calmar = calmar_ratio_of total_return mdd;
                 wr = win_rate_of ts
             in Inr \<lparr>summary =
                       \<lparr>s_initial_capital = ic, s_final_capital = final_capital,
                        s_total_return = fmul total_return (Fin 100),
                        s_absolute_return = absolute_return,
                        s_sharpe_ratio = sharpe, s_sortino_ratio = sortino,
                        s_calmar_ratio = calmar,
                        s_max_drawdown = fmul mdd (Fin 100),
                        s_volatility = fmul vol (Fin 100),
                        s_win_rate = fmul wr (Fin 100),
                        s_total_trades = total_trades ts\<rparr>,
                     r_equity = eq, r_trades = ts, r_positions = ps,
                     daily_returns = daily_returns_of eq,
                     metrics =
                       \<lparr>sharpe_ratio = sharpe, sortino_ratio = sortino,
                        calmar_ratio = calmar, max_drawdown = mdd, volatility = vol,
                        win_rate = wr\<rparr>\<rparr>)))"

text \<open>\<open>execute_backtest(data, signals, config)\<close>; \<open>config=None\<close> takes the defaults.\<close>

definition simulate :: "config \<Rightarrow> sig_bar list \<Rightarrow> error + sim_state" where
  "simulate cfg signals =
     run_bars (cfg_commission cfg) (cfg_slippage cfg) (init_state (cfg_initial_capital cfg)) signals"

definition execute_backtest ::
  "data_bar list \<Rightarrow> sig_bar list \<Rightarrow> config option \<Rightarrow> error + backtest_result" where
  "execute_backtest data signals config =
     (let cfg = resolve_config config
      in case simulate cfg signals of
           Inl e \<Rightarrow> Inl e
         | Inr st \<Rightarrow>
            (case liquidate (cfg_commission cfg) (cfg_slippage cfg) data st of
               Inl e \<Rightarrow> Inl e
             | Inr st' \<Rightarrow>
                 calculate_performance_metrics (equity st') (trades st') (positions st') cfg))"

text \<open>The variables of the loop once the rows \<open>0 .. i\<close> of \<open>signals\<close> are processed.\<close>

definition state_after :: "config \<Rightarrow> sig_bar list \<Rightarrow> nat \<Rightarrow> error + sim_state" where
  "state_after cfg signals i = simulate cfg (take (Suc i) signals)"

section \<open>Properties of a run\<close>

text \<open>
  A trade log alternates when it reads BUY, SELL, BUY, SELL, ...; the flag says whether
  the next trade has to be a BUY (no position is open).
\<close>

fun alternating :: "bool \<Rightarrow> trade list \<Rightarrow> bool" where
  "alternating flat [] = True"
| "alternating flat (t # ts) =
     (if flat then \<not> is_sell t \<and> alternating False ts else is_sell t \<and> alternating True ts)"

text \<open>A log ends flat when it is empty or its last trade is a SELL.\<close>

definition ends_flat :: "trade list \<Rightarrow> bool" where
  "ends_flat ts = (ts = [] \<or> is_sell (last ts))"

text \<open>
  What one bar may do to the position: nothing; a SELL of all shares held, issued while
  shares are held; or a BUY, issued while none are held.
\<close>

definition issue_ok :: "sim_state \<Rightarrow> sim_state \<Rightarrow> bool" where
  "issue_ok s s' =
     ((trades s' = trades s \<and> shares s' = shares s) \<or>
      (\<exists>t. trades s' = trades s @ [t] \<and> is_sell t \<and> 0 < shares s \<and> shares s' = 0 \<and>
           t_shares t = shares s) \<or>
      (\<exists>t. trades s' = trades s @ [t] \<and> (case t of BUY _ n _ _ _ \<Rightarrow> n = shares s' | SELL _ _ _ _ _ \<Rightarrow> False) \<and>
           shares s = 0 \<and> 0 < shares s'))"

text \<open>The invariant of the loop.\<close>

definition sim_inv :: "sim_state \<Rightarrow> bool" where
  "sim_inv st =
     (0 \<le> shares st \<and> alternating True (trades st) \<and>
      (ends_flat (trades st) = (shares st = 0)) \<and>
      (\<forall>p \<in> set (positions st). 0 \<le> p_shares p))"

section \<open>pandas series\<close>

text \<open>
  A column of a frame is the list of its values.  The operations below are the pandas
  calls the strategies make, with the defaults the code leaves in place: a rolling
  window of \<open>w\<close> rows needs \<open>w\<close> valid observations (\<open>min_periods\<close> is the window),
  infinite entries count as missing in rolling and exponentially weighted windows, and
  the rolling standard deviation is the sample form (\<open>ddof = 1\<close>).
\<close>

type_synonym series = "fval list"

definition the_real :: "fval \<Rightarrow> real" where
  "the_real v = (case v of Fin r \<Rightarrow> r | _ \<Rightarrow> 0)"

definition window_at :: "series \<Rightarrow> nat \<Rightarrow> nat \<Rightarrow> series" where
  "window_at xs w i = take w (drop (Suc i - w) xs)"

definition roll_mean_at :: "series \<Rightarrow> nat \<Rightarrow> nat \<Rightarrow> fval" where
  "roll_mean_at xs w i =
     (let win = window_at xs w i
      in if w = 0 \<or> Suc i < w \<or> \<not> list_all is_fin win then NaN
         else Fin (sum_list (map the_real win) / real w))"

definition rolling_mean :: "series \<Rightarrow> nat \<Rightarrow> series" where
  "rolling_mean xs w = map (roll_mean_at xs w) [0..<length xs]"

definition roll_std_at :: "series \<Rightarrow> nat \<Rightarrow> nat \<Rightarrow> fval" where
  "roll_std_at xs w i =
     (let win = window_at xs w i
      in if w \<le> 1 \<or> Suc i < w \<or> \<not> list_all is_fin win then NaN
         else (let m = sum_list (map the_real win) / real w
               in Fin (sqrt (sum_list (map (\<lambda>v. (the_real v - m) ^ 2) win) / real (w - 1)))))"

definition rolling_std :: "series \<Rightarrow> nat \<Rightarrow> series" where
  "rolling_std xs w = map (roll_std_at xs w) [0..<length xs]"

text \<open>Elementwise arithmetic and comparison of two aligned columns, or with a scalar.\<close>

definition series_op :: "(fval \<Rightarrow> fval \<Rightarrow> fval) \<Rightarrow> series \<Rightarrow> series \<Rightarrow> series" where
  "series_op f xs ys = map (\<lambda>(x, y). f x y) (zip xs ys)"

definition series_cmp :: "(fval \<Rightarrow> fval \<Rightarrow> bool) \<Rightarrow> series \<Rightarrow> series \<Rightarrow> bool list" where
  "series_cmp f xs ys = map (\<lambda>(x, y). f x y) (zip xs ys)"

definition mask_and :: "bool list \<Rightarrow> bool list \<Rightarrow> bool list" where
  "mask_and ms ns = map (\<lambda>(m, n). m \<and> n) (zip ms ns)"

text \<open>\<open>s.diff()\<close>: the first entry is NaN.\<close>

definition diff_s :: "series \<Rightarrow> series" where
  "diff_s xs = (case xs of [] \<Rightarrow> [] | _ # _ \<Rightarrow> NaN # np_diff xs)"

text \<open>\<open>s.shift(n)\<close>: rows move down by \<open>n\<close> (up for a negative \<open>n\<close>), NaN fills the gap.\<close>

definition shift :: "series \<Rightarrow> int \<Rightarrow> series" where
  "shift xs n =
     (if 0 \<le> n
      then replicate (min (nat n) (length xs)) NaN @ take (length xs - nat n) xs
      else drop (nat (- n)) xs @ replicate (min (nat (- n)) (length xs)) NaN)"

text \<open>
  \<open>s.pct_change(periods=n)\<close>, with the forward fill of missing values that pandas
  before 3.0 applies first.
\<close>

fun ffill_from :: "fval \<Rightarrow> series \<Rightarrow> series" where
  "ffill_from prev [] = []"
| "ffill_from prev (x # xs) =
     (if x = NaN then prev # ffill_from prev xs else x # ffill_from x xs)"

definition pct_change :: "series \<Rightarrow> int \<Rightarrow> series" where
  "pct_change xs n =
     (let filled = ffill_from NaN xs
      in map (\<lambda>q. fsub q (Fin 1)) (series_op fdiv filled (shift filled n)))"

text \<open>\<open>s.where(cond, other)\<close> keeps the entries that satisfy the condition.\<close>

definition where_s :: "(fval \<Rightarrow> bool) \<Rightarrow> fval \<Rightarrow> series \<Rightarrow> series" where
  "where_s cond other xs = map (\<lambda>x. if cond x then x else other) xs"

text \<open>
  \<open>s.ewm(span=..., adjust=False).mean()\<close>: the loop of pandas over the column, with
  state \<open>weighted\<close> and \<open>old_wt\<close>; a missing value repeats the last average and ages
  the old weight.
\<close>

fun ewm_loop :: "fval \<Rightarrow> fval \<Rightarrow> fval \<Rightarrow> series \<Rightarrow> series" where
  "ewm_loop alpha weighted old_wt [] = []"
| "ewm_loop alpha weighted old_wt (cur # rest) =
     (if weighted \<noteq> NaN then
        (let old_wt1 = fmul old_wt (fsub (Fin 1) alpha)
         in if cur \<noteq> NaN then
              (let weighted1 =
                     (if \<not> feq weighted cur
                      then fdiv (fadd (fmul old_wt1 weighted) (fmul alpha cur)) (fadd old_wt1 alpha)
                      else weighted)
               in weighted1 # ewm_loop alpha weighted1 (Fin 1) rest)
            else weighted # ewm_loop alpha weighted old_wt1 rest)
      else if cur \<noteq> NaN then cur # ewm_loop alpha cur old_wt rest
      else weighted # ewm_loop alpha weighted old_wt rest)"

definition ewm_mean :: "series \<Rightarrow> fval \<Rightarrow> series" where
  "ewm_mean xs alpha =
     (case map (\<lambda>v. if is_fin v then v else NaN) xs of
        [] \<Rightarrow> []
      | x # rest \<Rightarrow> x # ewm_loop alpha x (Fin 1) rest)"

text \<open>\<open>col.loc[mask] = v\<close>.\<close>

definition loc_assign :: "bool list \<Rightarrow> fval \<Rightarrow> series \<Rightarrow> series" where
  "loc_assign msk v col = map (\<lambda>(m, x). if m then v else x) (zip msk col)"

section \<open>Frames, the store and strategy parameters\<close>

text \<open>
  A DataFrame is a mutable object: a strategy receives a reference to it.  The store
  maps references to frames and a frame maps column names to columns.  A strategy is
  a function on the store that returns a reference or raises.  The number of rows of
  a frame is the length of its \<open>Close\<close> column (all columns of a DataFrame have the
  same length).
\<close>

type_synonym frame = "string \<Rightarrow> series option"
type_synonym heap = "nat \<Rightarrow> frame"
type_synonym 'a prog = "heap \<Rightarrow> (error + 'a) \<times> heap"

definition ret :: "'a \<Rightarrow> 'a prog" where
  "ret x h = (Inr x, h)"

definition lift :: "error + 'a \<Rightarrow> 'a prog" where
  "lift r h = (r, h)"

definition pbind :: "'a prog \<Rightarrow> ('a \<Rightarrow> 'b prog) \<Rightarrow> 'b prog" where
  "pbind p f h = (case p h of (Inl e, h') \<Rightarrow> (Inl e, h') | (Inr x, h') \<Rightarrow> f x h')"

text \<open>\<open>data[k]\<close> raises KeyError for a column that is not there.\<close>

definition get_col :: "nat \<Rightarrow> string \<Rightarrow> series prog" where
  "get_col a k h = (case h a k of None \<Rightarrow> (Inl KeyError, h) | Some c \<Rightarrow> (Inr c, h))"

text \<open>\<open>data[k] = column\<close> and \<open>data[k] = scalar\<close>: the frame itself is changed.\<close>

definition set_col :: "nat \<Rightarrow> string \<Rightarrow> series \<Rightarrow> unit prog" where
  "set_col a k c h = (Inr (), h(a := (h a)(k \<mapsto> c)))"

definition nrows :: "frame \<Rightarrow> nat" where
  "nrows f = (case f ''Close'' of None \<Rightarrow> 0 | Some c \<Rightarrow> length c)"

definition set_const :: "nat \<Rightarrow> string \<Rightarrow> fval \<Rightarrow> unit prog" where
  "set_const a k v h = (Inr (), h(a := (h a)(k \<mapsto> replicate (nrows (h a)) v)))"

text \<open>\<open>data.loc[mask, k] = v\<close>.\<close>

definition loc_set :: "nat \<Rightarrow> bool list \<Rightarrow> string \<Rightarrow> fval \<Rightarrow> unit prog" where
  "loc_set a msk k v =
     pbind (get_col a k) (\<lambda>col. set_col a k (loc_assign msk v col))"

text \<open>
  A parameter dictionary holds Python integers and floats.  A rolling window has to
  be a non-negative integer, a number of periods an integer, and a span at least 1;
  pandas raises otherwise.
\<close>

datatype pval = PInt int | PFloat fval

type_synonym params = "string \<Rightarrow> pval option"

definition num_of :: "pval \<Rightarrow> fval" where
  "num_of v = (case v of PInt n \<Rightarrow> Fin (of_int n) | PFloat x \<Rightarrow> x)"

definition window_of :: "pval \<Rightarrow> error + nat" where
  "window_of v =
     (case v of PInt n \<Rightarrow> (if n < 0 then Inl ValueError else Inr (nat n))
              | PFloat _ \<Rightarrow> Inl ValueError)"

definition periods_of :: "pval \<Rightarrow> error + int" where
  "periods_of v = (case v of PInt n \<Rightarrow> Inr n | PFloat _ \<Rightarrow> Inl TypeError)"

definition span_alpha :: "pval \<Rightarrow> error + fval" where
  "span_alpha v =
     (let span = num_of v
      in if flt span (Fin 1) then Inl ValueError
         else Inr (fdiv (Fin 1) (fadd (Fin 1) (fdiv (fsub span (Fin 1)) (Fin 2)))))"

definition params_or :: "params option \<Rightarrow> params \<Rightarrow> params" where
  "params_or p d = (case p of None \<Rightarrow> d | Some m \<Rightarrow> m)"

section \<open>The six strategies\<close>

text \<open>
  Each strategy is written statement by statement, in the order of the source, so
  that an exception leaves the columns assigned before it in the frame.
\<close>

definition ma_defaults :: params where
  "ma_defaults = [''fast_period'' \<mapsto> PInt 10, ''slow_period'' \<mapsto> PInt 20]"

definition moving_average_crossover :: "nat \<Rightarrow> params option \<Rightarrow> nat prog" where
  "moving_average_crossover a params =
     (let p = params_or params ma_defaults;
          fast_period = dict_get (p ''fast_period'') (PInt 10);
          slow_period = dict_get (p ''slow_period'') (PInt 20)
      in pbind (get_col a ''Close'') (\<lambda>c.
         pbind (lift (window_of fast_period)) (\<lambda>fw.
         pbind (set_col a ''fast_ma'' (rolling_mean c fw)) (\<lambda>_.
         pbind (get_col a ''Close'') (\<lambda>c.
         pbind (lift (window_of slow_period)) (\<lambda>sw.
         pbind (set_col a ''slow_ma'' (rolling_mean c sw)) (\<lambda>_.
         pbind (set_const a ''signal'' (Fin 0)) (\<lambda>_.
         pbind (set_const a ''position'' (Fin 0)) (\<lambda>_.
         pbind (get_col a ''fast_ma'') (\<lambda>f.
         pbind (get_col a ''slow_ma'') (\<lambda>s.
         pbind (loc_set a (series_cmp fgt f s) ''signal'' (Fin 1)) (\<lambda>_.
         pbind (get_col a ''fast_ma'') (\<lambda>f.
         pbind (get_col a ''slow_ma'') (\<lambda>s.
         pbind (loc_set a (series_cmp flt f s) ''signal'' (Fin (- 1))) (\<lambda>_.
         pbind (get_col a ''signal'') (\<lambda>sg.
         pbind (set_col a ''position'' (diff_s sg)) (\<lambda>_.
         ret a)))))))))))))))))"

text \<open>
  Lines 111 to 115 and 229 to 233: the RSI of a close column over a window, from the
  rolling averages \<open>gain\<close> and \<open>loss\<close>.  The quotient \<open>gain / loss\<close> is not guarded.
\<close>

definition rsi_gain :: "series \<Rightarrow> nat \<Rightarrow> series" where
  "rsi_gain c n = rolling_mean (where_s (\<lambda>d. fgt d (Fin 0)) (Fin 0) (diff_s c)) n"

definition rsi_loss :: "series \<Rightarrow> nat \<Rightarrow> series" where
  "rsi_loss c n = rolling_mean (map fneg (where_s (\<lambda>d. flt d (Fin 0)) (Fin 0) (diff_s c))) n"

definition rsi_series :: "series \<Rightarrow> nat \<Rightarrow> series" where
  "rsi_series c n =
     (let gain = rsi_gain c n;
          loss = rsi_loss c n;
          rs = series_op fdiv gain loss
      in map (\<lambda>r. fsub (Fin 100) (fdiv (Fin 100) (fadd (Fin 1) r))) rs)"

text \<open>Lines 105 to 108 and 190 to 193: the four Bollinger columns.\<close>

definition bollinger_columns :: "nat \<Rightarrow> pval \<Rightarrow> pval \<Rightarrow> unit prog" where
  "bollinger_columns a period mult =
     pbind (get_col a ''Close'') (\<lambda>c.
     pbind (lift (window_of period)) (\<lambda>w.
     pbind (set_col a ''bb_middle'' (rolling_mean c w)) (\<lambda>_.
     pbind (get_col a ''Close'') (\<lambda>c.
     pbind (set_col a ''bb_std'' (rolling_std c w)) (\<lambda>_.
     pbind (get_col a ''bb_middle'') (\<lambda>mid.
     pbind (get_col a ''bb_std'') (\<lambda>sd.
     pbind (set_col a ''bb_upper''
              (series_op fadd mid (map (\<lambda>x. fmul x (num_of mult)) sd))) (\<lambda>_.
     pbind (get_col a ''bb_middle'') (\<lambda>mid.
     pbind (get_col a ''bb_std'') (\<lambda>sd.
     set_col a ''bb_lower''
              (series_op fsub mid (map (\<lambda>x. fmul x (num_of mult)) sd))))))))))))"

definition mr_defaults :: params where
  "mr_defaults = [''bb_period'' \<mapsto> PInt 20, ''bb_std'' \<mapsto> PInt 2, ''rsi_period'' \<mapsto> PInt 14,
                  ''rsi_overbought'' \<mapsto> PInt 70, ''rsi_oversold'' \<mapsto> PInt 30]"

definition mean_reversion :: "nat \<Rightarrow> params option \<Rightarrow> nat prog" where
  "mean_reversion a params =
     (let p = params_or params mr_defaults;
          bb_period = dict_get (p ''bb_period'') (PInt 20);
          bb_std = dict_get (p ''bb_std'') (PInt 2);
          rsi_period = dict_get (p ''rsi_period'') (PInt 14);
          rsi_overbought = dict_get (p ''rsi_overbought'') (PInt 70);
          rsi_oversold = dict_get (p ''rsi_oversold'') (PInt 30)
      in pbind (bollinger_columns a bb_period bb_std) (\<lambda>_.
         pbind (get_col a ''Close'') (\<lambda>c.
         pbind (lift (window_of rsi_period)) (\<lambda>n.
         pbind (set_col a ''rsi'' (rsi_series c n)) (\<lambda>_.
         pbind (set_const a ''signal'' (Fin 0)) (\<lambda>_.
         pbind (get_col a ''Close'') (\<lambda>c.
         pbind (get_col a ''bb_lower'') (\<lambda>lower.
         pbind (get_col a ''rsi'') (\<lambda>rsi.
         pbind (loc_set a
                  (mask_and (series_cmp fle c (map (\<lambda>x. fmul x (Fin (101 / 100))) lower))
                            (map (\<lambda>r. fle r (num_of rsi_oversold)) rsi))
                  ''signal'' (Fin 1)) (\<lambda>_.
         pbind (get_col a ''Close'') (\<lambda>c.
         pbind (get_col a ''bb_upper'') (\<lambda>upper.
         pbind (get_col a ''rsi'') (\<lambda>rsi.
         pbind (loc_set a
                  (mask_and (series_cmp fge c (map (\<lambda>x. fmul x (Fin (99 / 100))) upper))
                            (map (\<lambda>r. fge r (num_of rsi_overbought)) rsi))
                  ''signal'' (Fin (- 1))) (\<lambda>_.
         pbind (get_col a ''signal'') (\<lambda>sg.
         pbind (set_col a ''position'' (diff_s sg)) (\<lambda>_.
         ret a))))))))))))))))"

definition momentum_defaults :: params where
  "momentum_defaults = [''lookback_period'' \<mapsto> PInt 20, ''threshold'' \<mapsto> PFloat (Fin (5 / 100))]"

definition momentum :: "nat \<Rightarrow> params option \<Rightarrow> nat prog" where
  "momentum a params =
     (let p = params_or params momentum_defaults;
          lookback_period = dict_get (p ''lookback_period'') (PInt 20);
          threshold = dict_get (p ''threshold'') (PFloat (Fin (5 / 100)))
      in pbind (get_col a ''Close'') (\<lambda>c.
         pbind (lift (periods_of lookback_period)) (\<lambda>n.
         pbind (set_col a ''momentum'' (pct_change c n)) (\<lambda>_.
         pbind (set_const a ''signal'' (Fin 0)) (\<lambda>_.
         pbind (get_col a ''momentum'') (\<lambda>m.
         pbind (loc_set a (map (\<lambda>x. fgt x (num_of threshold)) m) ''signal'' (Fin 1)) (\<lambda>_.
         pbind (get_col a ''momentum'') (\<lambda>m.
         pbind (loc_set a (map (\<lambda>x. flt x (fneg (num_of threshold))) m) ''signal'' (Fin (- 1))) (\<lambda>_.
         pbind (get_col a ''signal'') (\<lambda>sg.
         pbind (set_col a ''position'' (diff_s sg)) (\<lambda>_.
         ret a)))))))))))"

definition bb_defaults :: params where
  "bb_defaults = [''period'' \<mapsto> PInt 20, ''std'' \<mapsto> PInt 2]"

definition bollinger_bands :: "nat \<Rightarrow> params option \<Rightarrow> nat prog" where
  "bollinger_bands a params =
     (let p = params_or params bb_defaults;
          period = dict_get (p ''period'') (PInt 20);
          std = dict_get (p ''std'') (PInt 2)
      in pbind (bollinger_columns a period std) (\<lambda>_.
         pbind (get_col a ''bb_upper'') (\<lambda>upper.
         pbind (get_col a ''bb_lower'') (\<lambda>lower.
         pbind (get_col a ''bb_middle'') (\<lambda>mid.
         pbind (set_col a ''bb_width'' (series_op fdiv (series_op fsub upper lower) mid)) (\<lambda>_.
         pbind (set_const a ''signal'' (Fin 0)) (\<lambda>_.
         pbind (get_col a ''Close'') (\<lambda>c.
         pbind (get_col a ''bb_lower'') (\<lambda>lower.
         pbind (loc_set a (series_cmp fle c lower) ''signal'' (Fin 1)) (\<lambda>_.
         pbind (get_col a ''Close'') (\<lambda>c.
         pbind (get_col a ''bb_upper'') (\<lambda>upper.
         pbind (loc_set a (series_cmp fge c upper) ''signal'' (Fin (- 1))) (\<lambda>_.
         pbind (get_col a ''signal'') (\<lambda>sg.
         pbind (set_col a ''position'' (diff_s sg)) (\<lambda>_.
         ret a)))))))))))))))"

definition rsi_defaults :: params where
  "rsi_defaults = [''period'' \<mapsto> PInt 14, ''divergence_period'' \<mapsto> PInt 20]"

definition rsi_divergence :: "nat \<Rightarrow> params option \<Rightarrow> nat prog" where
  "rsi_divergence a params =
     (let p = params_or params rsi_defaults;
          period = dict_get (p ''period'') (PInt 14);
          divergence_period = dict_get (p ''divergence_period'') (PInt 20)
      in pbind (get_col a ''Close'') (\<lambda>c.
         pbind (lift (window_of period)) (\<lambda>n.
         pbind (set_col a ''rsi'' (rsi_series c n)) (\<lambda>_.
         pbind (get_col a ''Close'') (\<lambda>c.
         pbind (lift (window_of divergence_period)) (\<lambda>dp.
         pbind (set_col a ''price_ma'' (rolling_mean c dp)) (\<lambda>_.
         pbind (get_col a ''rsi'') (\<lambda>rsi.
         pbind (set_col a ''rsi_ma'' (rolling_mean rsi dp)) (\<lambda>_.
         pbind (set_const a ''signal'' (Fin 0)) (\<lambda>_.
         pbind (get_col a ''Close'') (\<lambda>c.
         pbind (get_col a ''rsi'') (\<lambda>rsi.
         pbind (loc_set a
                  (mask_and
                     (mask_and (series_cmp flt c (shift c (int dp)))
                               (series_cmp fgt rsi (shift rsi (int dp))))
                     (map (\<lambda>r. flt r (Fin 40)) rsi))
                  ''signal'' (Fin 1)) (\<lambda>_.
         pbind (get_col a ''Close'') (\<lambda>c.
         pbind (get_col a ''rsi'') (\<lambda>rsi.
         pbind (loc_set a
                  (mask_and
                     (mask_and (series_cmp fgt c (shift c (int dp)))
                               (series_cmp flt rsi (shift rsi (int dp))))
                     (map (\<lambda>r. fgt r (Fin 60)) rsi))
                  ''signal'' (Fin (- 1))) (\<lambda>_.
         pbind (get_col a ''signal'') (\<lambda>sg.
         pbind (set_col a ''position'' (diff_s sg)) (\<lambda>_.
         ret a))))))))))))))))))"

definition macd_defaults :: params where
  "macd_defaults = [''fast'' \<mapsto> PInt 12, ''slow'' \<mapsto> PInt 26, ''signal'' \<mapsto> PInt 9]"

definition macd_crossover :: "nat \<Rightarrow> params option \<Rightarrow> nat prog" where
  "macd_crossover a params =
     (let p = params_or params macd_defaults;
          fast = dict_get (p ''fast'') (PInt 12);
          slow = dict_get (p ''slow'') (PInt 26);
          signal_span = dict_get (p ''signal'') (PInt 9)
      in pbind (get_col a ''Close'') (\<lambda>c.
         pbind (lift (span_alpha fast)) (\<lambda>af.
         pbind (get_col a ''Close'') (\<lambda>c2.
         pbind (lift (span_alpha slow)) (\<lambda>as.
         pbind (set_col a ''macd'' (series_op fsub (ewm_mean c af) (ewm_mean c2 as))) (\<lambda>_.
         pbind (get_col a ''macd'') (\<lambda>m.
         pbind (lift (span_alpha signal_span)) (\<lambda>ag.
         pbind (set_col a ''macd_signal'' (ewm_mean m ag)) (\<lambda>_.
         pbind (get_col a ''macd'') (\<lambda>m.
         pbind (get_col a ''macd_signal'') (\<lambda>ms.
         pbind (set_col a ''macd_histogram'' (series_op fsub m ms)) (\<lambda>_.
         pbind (set_const a ''signal'' (Fin 0)) (\<lambda>_.
         pbind (get_col a ''macd'') (\<lambda>m.
         pbind (get_col a ''macd_signal'') (\<lambda>ms.
         pbind (loc_set a
                  (mask_and (series_cmp fgt m ms) (series_cmp fle (shift m 1) (shift ms 1)))
                  ''signal'' (Fin 1)) (\<lambda>_.
         pbind (get_col a ''macd'') (\<lambda>m.
         pbind (get_col a ''macd_signal'') (\<lambda>ms.
         pbind (loc_set a
                  (mask_and (series_cmp flt m ms) (series_cmp fge (shift m 1) (shift ms 1)))
                  ''signal'' (Fin (- 1))) (\<lambda>_.
         pbind (get_col a ''signal'') (\<lambda>sg.
         pbind (set_col a ''position'' (diff_s sg)) (\<lambda>_.
         ret a)))))))))))))))))))))"

text \<open>
  The dictionary \<open>self.strategies\<close> built by \<open>__init__\<close> and \<open>execute_strategy\<close>,
  which raises ValueError for a name that is not a key.
\<close>

definition strategies :: "string \<Rightarrow> (nat \<Rightarrow> params option \<Rightarrow> nat prog) option" where
  "strategies =
     [''moving-average-crossover'' \<mapsto> moving_average_crossover,
      ''mean-reversion'' \<mapsto> mean_reversion,
      ''momentum'' \<mapsto> momentum,
      ''bollinger-bands'' \<mapsto> bollinger_bands,
      ''rsi-divergence'' \<mapsto> rsi_divergence,
      ''macd-crossover'' \<mapsto> macd_crossover]"

definition execute_strategy :: "string \<Rightarrow> nat \<Rightarrow> params option \<Rightarrow> nat prog" where
  "execute_strategy strategy_name a params =
     (case strategies strategy_name of
        None \<Rightarrow> lift (Inl ValueError)
      | Some f \<Rightarrow> f a params)"

section \<open>Undefined indicators\<close>

text \<open>
  The value of the \<open>signal\<close> column at a bar; whether a column is undefined (NaN) at a
  bar; and whether the rolling window set by a parameter is not yet full at a bar.
\<close>

definition signal_at :: "frame \<Rightarrow> nat \<Rightarrow> fval option" where
  "signal_at f i =
     (case f ''signal'' of None \<Rightarrow> None
      | Some sg \<Rightarrow> if i < length sg then Some (sg ! i) else None)"

definition undefined_at :: "frame \<Rightarrow> string \<Rightarrow> nat \<Rightarrow> bool" where
  "undefined_at f k i =
     (case f k of None \<Rightarrow> False | Some col \<Rightarrow> i < length col \<and> col ! i = NaN)"

definition warming :: "pval \<Rightarrow> nat \<Rightarrow> bool" where
  "warming p i = (case window_of p of Inl _ \<Rightarrow> False | Inr w \<Rightarrow> Suc i < w)"

section \<open>What a strategy writes\<close>

text \<open>
  The columns each strategy assigns, by the names of the strategy dictionary, and the
  frame condition of a program on the frame at \<open>a\<close>: every other frame and every
  column outside \<open>W\<close> is left as it was, whether the program returns or raises.
\<close>

definition writes :: "string \<Rightarrow> string set" where
  "writes strategy_name =
     (if strategy_name = ''moving-average-crossover''
        then {''fast_ma'', ''slow_ma'', ''signal'', ''position''}
      else if strategy_name = ''mean-reversion''
        then {''bb_middle'', ''bb_std'', ''bb_upper'', ''bb_lower'', ''rsi'', ''signal'', ''position''}
      else if strategy_name = ''momentum''
        then {''momentum'', ''signal'', ''position''}
      else if strategy_name = ''bollinger-bands''
        then {''bb_middle'', ''bb_std'', ''bb_upper'', ''bb_lower'', ''bb_width'', ''signal'',
              ''position''}
      else if strategy_name = ''rsi-divergence''
        then {''rsi'', ''price_ma'', ''rsi_ma'', ''signal'', ''position''}
      else if strategy_name = ''macd-crossover''
        then {''macd'', ''macd_signal'', ''macd_histogram'', ''signal'', ''position''}
      else {})"

definition frame_ok :: "nat \<Rightarrow> string set \<Rightarrow> 'a prog \<Rightarrow> bool" where
  "frame_ok a W p =
     (\<forall>h res h'. p h = (res, h') \<longrightarrow>
        (\<forall>b. b \<noteq> a \<longrightarrow> h' b = h b) \<and> (\<forall>k. k \<notin> W \<longrightarrow> h' a k = h a k))"

section \<open>Facts about the simulator\<close>

lemma record_point_fields:
  "capital (record_point b st) = capital st"
  "shares (record_point b st) = shares st"
  "trades (record_point b st) = trades st"
  "equity (record_point b st) =
     equity st @ [fadd (capital st) (fmul (of_py_int (shares st)) (Close b))]"
  by (simp_all add: record_point_def Let_def)

lemma step_equity:
  assumes "step comm slip st b = Inr st'"
  shows "equity st' = equity st @ [fadd (capital st') (fmul (of_py_int (shares st')) (Close b))]"
  using assms
  by (auto simp: step_def Let_def record_point_fields split: if_splits sum.splits)

lemma run_bars_snoc:
  "run_bars comm slip st (bs @ [b]) =
     (case run_bars comm slip st bs of Inl e \<Rightarrow> Inl e | Inr st1 \<Rightarrow> step comm slip st1 b)"
  by (induction bs arbitrary: st) (auto split: sum.splits)

lemma run_bars_length_equity:
  "run_bars comm slip st bs = Inr st' \<Longrightarrow> length (equity st') = length (equity st) + length bs"
proof (induction bs arbitrary: st)
  case Nil then show ?case by simp
next
  case (Cons b bs)
  then show ?case by (auto split: sum.splits dest!: step_equity)
qed

lemma run_bars_equity_points:
  "run_bars comm slip (init_state ic) bs = Inr st \<Longrightarrow>
   equity st ! 0 = ic \<and>
   (\<forall>i<length bs. \<exists>sti. run_bars comm slip (init_state ic) (take (Suc i) bs) = Inr sti \<and>
       equity st ! Suc i = fadd (capital sti) (fmul (of_py_int (shares sti)) (Close (bs ! i))))"
proof (induction bs arbitrary: st rule: rev_induct)
  case Nil
  then show ?case by (auto simp: init_state_def)
next
  case (snoc b bs)
  from snoc.prems obtain st1 where r1: "run_bars comm slip (init_state ic) bs = Inr st1"
    and s1: "step comm slip st1 b = Inr st"
    by (auto simp: run_bars_snoc split: sum.splits)
  have len1: "length (equity st1) = Suc (length bs)"
    using run_bars_length_equity[OF r1] by (simp add: init_state_def)
  have eq: "equity st = equity st1 @ [fadd (capital st) (fmul (of_py_int (shares st)) (Close b))]"
    by (rule step_equity[OF s1])
  from snoc.IH[OF r1] have ih0: "equity st1 ! 0 = ic"
    and ih: "\<forall>i<length bs. \<exists>sti. run_bars comm slip (init_state ic) (take (Suc i) bs) = Inr sti \<and>
       equity st1 ! Suc i = fadd (capital sti) (fmul (of_py_int (shares sti)) (Close (bs ! i)))"
    by auto
  have "equity st ! 0 = ic" using ih0 len1 by (simp add: eq nth_append)
  moreover have "\<exists>sti. run_bars comm slip (init_state ic) (take (Suc i) (bs @ [b])) = Inr sti \<and>
       equity st ! Suc i = fadd (capital sti) (fmul (of_py_int (shares sti)) (Close ((bs @ [b]) ! i)))"
    if "i < length (bs @ [b])" for i
  proof (cases "i < length bs")
    case True
    with ih obtain sti where "run_bars comm slip (init_state ic) (take (Suc i) bs) = Inr sti"
      "equity st1 ! Suc i = fadd (capital sti) (fmul (of_py_int (shares sti)) (Close (bs ! i)))"
      by blast
    with True len1 show ?thesis by (auto simp: eq nth_append)
  next
    case False
    with that have "i = length bs" by simp
    with snoc.prems len1 show ?thesis by (auto simp: eq nth_append)
  qed
  ultimately show ?case by blast
qed


lemma liquidate_equity: "liquidate comm slip data st = Inr st' \<Longrightarrow> equity st' = equity st"
  by (auto simp: liquidate_def Let_def split: if_splits list.splits)

lemma metrics_equity:
  "calculate_performance_metrics eq ts ps cfg = Inr res \<Longrightarrow>
     r_equity res = eq \<and> r_trades res = ts \<and> r_positions res = ps"
  by (auto simp: calculate_performance_metrics_def Let_def split: if_splits sum.splits)

lemma pow2_powr: "pow2 k = 2 powr (real_of_int k)"
  by (simp add: pow2_def powr_int)

text \<open>
  How a rounding is checked at a given positive value: name the binade, then the
  significand.
\<close>

lemma round64_pos:
  assumes "pow2 e \<le> x" "x < pow2 (e + 1)" "- 1022 \<le> e"
    and "round_half_even (x / pow2 (e - 52)) = m"
    and "of_int m * pow2 (e - 52) < pow2 1024"
  shows "round64 x = Fin (of_int m * pow2 (e - 52))"
proof -
  have "0 < pow2 e" by (simp add: pow2_def)
  with assms(1) have x: "0 < x" by linarith
  have "\<lfloor>log 2 x\<rfloor> = e"
    using assms(1,2) x by (simp add: floor_log_eq_powr_iff pow2_powr)
  with x assms(3,4,5) show ?thesis
    by (simp add: round64_def Let_def max_def)
qed

lemma py_095_eq: "py_095 = Fin (4278419646001971 / 4503599627370496)"
  unfolding py_095_def
  by (rule round64_pos[where e = "- 1" and m = 8556839292003942, simplified pow2_def, simplified])
     (simp_all add: round_half_even_def Let_def)

lemma share_quotient:
  assumes "round64 (c * (4278419646001971 / 4503599627370496)) = Fin a" "p \<noteq> 0"
    and "round64 (a / p) = Fin q"
  shows "fdiv64 (fmul64 (Fin c) py_095) (Fin p) = Fin q"
  using assms by (simp add: fmul64_def fdiv64_def py_095_eq)

lemma quotient_100000_10:
  "fdiv64 (fmul64 (Fin 100000) py_095) (Fin (10)) = Fin (9500)"
proof (rule share_quotient)
  show "round64 (100000 * (4278419646001971 / 4503599627370496)) = Fin (95000)"
    by (rule round64_pos[where e = 16 and m = 6528350289920000, simplified pow2_def, simplified])
       (simp_all add: round_half_even_def Let_def)
  show "round64 (95000 / (10)) = Fin (9500)"
    by (rule round64_pos[where e = 13 and m = 5222680231936000, simplified pow2_def, simplified])
       (simp_all add: round_half_even_def Let_def)
qed simp

lemma quotient_5_10:
  "fdiv64 (fmul64 (Fin 5) py_095) (Fin (10)) = Fin (4278419646001971 / 9007199254740992)"
proof (rule share_quotient)
  show "round64 (5 * (4278419646001971 / 4503599627370496)) = Fin (19 / 4)"
    by (rule round64_pos[where e = 2 and m = 5348024557502464, simplified pow2_def, simplified])
       (simp_all add: round_half_even_def Let_def)
  show "round64 (19 / 4 / (10)) = Fin (4278419646001971 / 9007199254740992)"
    by (rule round64_pos[where e = "- 2" and m = 8556839292003942, simplified pow2_def, simplified])
       (simp_all add: round_half_even_def Let_def)
qed simp

lemma quotient_1000_10:
  "fdiv64 (fmul64 (Fin 1000) py_095) (Fin (10)) = Fin (95)"
proof (rule share_quotient)
  show "round64 (1000 * (4278419646001971 / 4503599627370496)) = Fin (950)"
    by (rule round64_pos[where e = 9 and m = 8356288371097600, simplified pow2_def, simplified])
       (simp_all add: round_half_even_def Let_def)
  show "round64 (950 / (10)) = Fin (95)"
    by (rule round64_pos[where e = 6 and m = 6685030696878080, simplified pow2_def, simplified])
       (simp_all add: round_half_even_def Let_def)
qed simp

lemma quotient_1_005:
  "fdiv64 (fmul64 (Fin 1) py_095) (Fin (3602879701896397 / 72057594037927936)) = Fin (5348024557502463 / 281474976710656)"
proof (rule share_quotient)
  show "round64 (1 * (4278419646001971 / 4503599627370496)) = Fin (4278419646001971 / 4503599627370496)"
    by (rule round64_pos[where e = "- 1" and m = 8556839292003942, simplified pow2_def, simplified])
       (simp_all add: round_half_even_def Let_def)
  show "round64 (4278419646001971 / 4503599627370496 / (3602879701896397 / 72057594037927936)) = Fin (5348024557502463 / 281474976710656)"
    by (rule round64_pos[where e = 4 and m = 5348024557502463, simplified pow2_def, simplified])
       (simp_all add: round_half_even_def Let_def)
qed simp

lemmas share_eval = quotient_100000_10 quotient_5_10 quotient_1000_10 quotient_1_005

lemmas sim_eval = share_eval simulate_def resolve_config_def default_config_def cfg_initial_capital_def
  cfg_commission_def cfg_slippage_def dict_get_def default_commission_def default_slippage_def
  init_state_def step_def Let_def py_int_def of_py_int_def record_point_def fsub_def
  state_after_def liquidate_def

lemma metrics_returns:
  assumes "eq \<noteq> []" and "length eq \<noteq> 1 \<or> \<not> feq (cfg_initial_capital cfg) (Fin 0)"
  shows "\<exists>res. calculate_performance_metrics eq ts ps cfg = Inr res"
  using assms by (auto simp: calculate_performance_metrics_def total_return_of_def Let_def)

text \<open>
  Claim C3.  For signals of \<open>N\<close> rows, a backtest that returns has an equity curve of
  \<open>N + 1\<close> entries; entry 0 is the initial capital of the configuration, and entry
  \<open>i + 1\<close> is the cash capital plus the shares held times the close of row \<open>i\<close>, both
  taken from the variables of the loop once row \<open>i\<close> is processed.
\<close>

theorem equity_curve_shape:
  assumes "execute_backtest data signals config = Inr res"
  shows "length (r_equity res) = length signals + 1 \<and>
         r_equity res ! 0 = cfg_initial_capital (resolve_config config) \<and>
         (\<forall>i<length signals. \<exists>sti.
             state_after (resolve_config config) signals i = Inr sti \<and>
             r_equity res ! Suc i =
               fadd (capital sti) (fmul (of_py_int (shares sti)) (Close (signals ! i))))"
proof -
  let ?cfg = "resolve_config config"
  from assms obtain st st' where
    sim: "simulate ?cfg signals = Inr st" and
    liq: "liquidate (cfg_commission ?cfg) (cfg_slippage ?cfg) data st = Inr st'" and
    met: "calculate_performance_metrics (equity st') (trades st') (positions st') ?cfg = Inr res"
    by (auto simp: execute_backtest_def Let_def split: sum.splits)
  have eq: "r_equity res = equity st"
    using metrics_equity[OF met] liquidate_equity[OF liq] by simp
  have run: "run_bars (cfg_commission ?cfg) (cfg_slippage ?cfg)
               (init_state (cfg_initial_capital ?cfg)) signals = Inr st"
    using sim by (simp add: simulate_def)
  have "length (equity st) = length signals + 1"
    using run_bars_length_equity[OF run] by (simp add: init_state_def)
  then show ?thesis
    using run_bars_equity_points[OF run] by (simp add: eq state_after_def simulate_def)
qed

theorem equity_curve_shape_witness:
  "\<exists>res. execute_backtest [\<lparr>date = 1, Close = Fin 11\<rparr>]
            [\<lparr>date = 0, Close = Fin 10, signal = 1\<rparr>,
             \<lparr>date = 1, Close = Fin 11, signal = - 1\<rparr>] None = Inr res \<and>
         length (r_equity res) = 3 \<and>
         r_equity res ! 0 = Fin 100000 \<and>
         r_equity res ! 1 = Fin (199715 / 2) \<and>
         r_equity res ! 2 = Fin (436803 / 4)"
proof -
  let ?S = "[\<lparr>date = 0, Close = Fin 10, signal = 1\<rparr>,
             \<lparr>date = 1, Close = Fin 11, signal = - 1\<rparr>]"
  let ?D = "[\<lparr>date = 1, Close = Fin 11\<rparr>]"
  let ?cfg = "resolve_config None"
  obtain st where sim: "simulate ?cfg ?S = Inr st" and eq3: "length (equity st) = 3"
    and sh: "shares st = 0"
    by (simp add: sim_eval)
  have liq: "liquidate (cfg_commission ?cfg) (cfg_slippage ?cfg) ?D st = Inr st"
    using sh by (simp add: liquidate_def)
  obtain res where met:
    "calculate_performance_metrics (equity st) (trades st) (positions st) ?cfg = Inr res"
  proof -
    have "equity st \<noteq> []" using eq3 by auto
    with metrics_returns[of "equity st" ?cfg "trades st" "positions st"] eq3
    show ?thesis using that by auto
  qed
  have ex: "execute_backtest ?D ?S None = Inr res"
    using sim liq met by (simp add: execute_backtest_def)
  have s0: "state_after ?cfg ?S 0 =
      Inr \<lparr>capital = Fin (9715 / 2), shares = 9500,
           trades = [BUY 0 9500 (Fin 10) (Fin (190285 / 2)) (Fin (199715 / 2))],
           equity = [Fin 100000, Fin (199715 / 2)],
           positions = [\<lparr>p_date = 0, p_shares = 9500, p_price = Fin 10,
               p_equity = Fin (199715 / 2), p_capital = Fin (9715 / 2),
               market_value = Fin 95000\<rparr>]\<rparr>"
    by (simp add: sim_eval)
  have s1: "state_after ?cfg ?S 1 = Inr st"
    using sim by (simp add: state_after_def)
  have c1: "capital st = Fin (436803 / 4)"
    using sim by (simp add: sim_eval) auto
  from equity_curve_shape[OF ex]
  have len: "length (r_equity res) = 3" and e0: "r_equity res ! 0 = cfg_initial_capital ?cfg"
    and pts: "\<forall>i<2. \<exists>sti. state_after ?cfg ?S i = Inr sti \<and>
             r_equity res ! Suc i =
               fadd (capital sti) (fmul (of_py_int (shares sti)) (Close (?S ! i)))"
    by simp_all
  from pts[rule_format, of 0] s0 have e1: "r_equity res ! 1 = Fin (199715 / 2)"
    by (simp add: of_py_int_def)
  from pts[rule_format, of 1] s1 c1 sh have e2: "r_equity res ! 2 = Fin (436803 / 4)"
    by (simp add: of_py_int_def numeral_2_eq_2)
  from e0 have e0': "r_equity res ! 0 = Fin 100000" by (simp add: sim_eval)
  show ?thesis using ex len e0' e1 e2 by blast
qed









lemma alternating_snoc:
  "alternating f ts \<Longrightarrow>
   alternating f (ts @ [t]) =
     (if (if ts = [] then f else is_sell (last ts)) then \<not> is_sell t else is_sell t)"
  by (induction ts arbitrary: f) (auto split: if_splits)

lemma alternating_True_snoc:
  "alternating True ts \<Longrightarrow>
   alternating True (ts @ [t]) = (if ends_flat ts then \<not> is_sell t else is_sell t)"
  by (simp add: alternating_snoc ends_flat_def)

lemma step_issue_ok: "step comm slip st b = Inr st' \<Longrightarrow> issue_ok st st'"
  by (auto simp: step_def Let_def record_point_fields issue_ok_def split: if_splits sum.splits)

lemma record_point_positions:
  "set (positions (record_point b st)) = insert
      \<lparr>p_date = date b, p_shares = shares st, p_price = Close b,
       p_equity = fadd (capital st) (fmul (of_py_int (shares st)) (Close b)),
       p_capital = capital st, market_value = fmul (of_py_int (shares st)) (Close b)\<rparr>
      (set (positions st))"
  by (simp add: record_point_def Let_def)

lemma step_positions:
  "step comm slip st b = Inr st' \<Longrightarrow>
   \<exists>p. positions st' = positions st @ [p] \<and> p_shares p = shares st'"
  by (auto simp: step_def Let_def record_point_def split: if_splits sum.splits)

lemma step_inv:
  assumes "sim_inv st" "step comm slip st b = Inr st'"
  shows "sim_inv st'"
proof -
  from step_positions[OF assms(2)] obtain p where
    p: "positions st' = positions st @ [p]" "p_shares p = shares st'" by blast
  from step_issue_ok[OF assms(2)] have ok: "issue_ok st st'" .
  from assms(1) have i: "0 \<le> shares st" "alternating True (trades st)"
    "ends_flat (trades st) = (shares st = 0)" "\<forall>p \<in> set (positions st). 0 \<le> p_shares p"
    by (auto simp: sim_inv_def)
  from ok have "0 \<le> shares st' \<and> alternating True (trades st') \<and>
      (ends_flat (trades st') = (shares st' = 0))"
    unfolding issue_ok_def
  proof (elim disjE exE conjE)
    assume "trades st' = trades st" "shares st' = shares st"
    with i show ?thesis by simp
  next
    fix t assume t: "trades st' = trades st @ [t]" "is_sell t" "0 < shares st" "shares st' = 0"
    with i show ?thesis by (simp add: alternating_True_snoc) (simp add: ends_flat_def)
  next
    fix t assume t: "trades st' = trades st @ [t]"
      "case t of BUY _ n _ _ _ \<Rightarrow> n = shares st' | SELL _ _ _ _ _ \<Rightarrow> False"
      "shares st = 0" "0 < shares st'"
    then have "\<not> is_sell t" by (cases t) auto
    with t i show ?thesis by (simp add: alternating_True_snoc) (simp add: ends_flat_def)
  qed
  with p i(4) show ?thesis by (auto simp: sim_inv_def)
qed

lemma init_inv: "sim_inv (init_state ic)"
  by (simp add: sim_inv_def init_state_def ends_flat_def)

lemma run_bars_inv:
  "sim_inv st \<Longrightarrow> run_bars comm slip st bs = Inr st' \<Longrightarrow> sim_inv st'"
  by (induction bs arbitrary: st) (auto split: sum.splits dest: step_inv)

lemma simulate_inv: "simulate cfg bs = Inr st \<Longrightarrow> sim_inv st"
  unfolding simulate_def using run_bars_inv[OF init_inv] by blast

lemma simulate_steps:
  assumes "simulate cfg bs = Inr st" "i < length bs"
  shows "\<exists>s s'. simulate cfg (take i bs) = Inr s \<and> state_after cfg bs i = Inr s' \<and>
           step (cfg_commission cfg) (cfg_slippage cfg) s (bs ! i) = Inr s'"
proof -
  have split: "bs = take i bs @ [bs ! i] @ drop (Suc i) bs"
    using assms(2) by (simp add: Cons_nth_drop_Suc)
  have app: "\<And>xs ys st0. run_bars (cfg_commission cfg) (cfg_slippage cfg) st0 (xs @ ys) =
      (case run_bars (cfg_commission cfg) (cfg_slippage cfg) st0 xs of Inl e \<Rightarrow> Inl e
       | Inr s1 \<Rightarrow> run_bars (cfg_commission cfg) (cfg_slippage cfg) s1 ys)"
    subgoal for xs ys st0 by (induction xs arbitrary: st0) (auto split: sum.splits)
    done
  have tk: "take (Suc i) bs = take i bs @ [bs ! i]"
    using assms(2) by (simp add: take_Suc_conv_app_nth)
  from assms(1) obtain s where s: "simulate cfg (take i bs) = Inr s"
    unfolding simulate_def by (subst (asm) split) (auto simp: app split: sum.splits)
  from assms(1) s obtain s' where
    s': "step (cfg_commission cfg) (cfg_slippage cfg) s (bs ! i) = Inr s'"
    unfolding simulate_def by (subst (asm) split) (auto simp: app split: sum.splits)
  from s s' have "state_after cfg bs i = Inr s'"
    by (simp add: state_after_def simulate_def tk run_bars_snoc)
  with s s' show ?thesis by blast
qed


lemma liquidate_facts:
  assumes "liquidate comm slip data st = Inr st'"
  shows "positions st' = positions st \<and>
         (if 0 < shares st
          then data \<noteq> [] \<and>
               (\<exists>c k. trades st' =
                  trades st @ [SELL (date (last data)) (shares st) (Close (last data)) c k])
          else trades st' = trades st)"
  using assms by (auto simp: liquidate_def Let_def split: if_splits list.splits)

text \<open>
  Claim C1.  In every backtest that returns: the shares held are never negative, after
  any bar and in every position record; a bar appends a BUY only when no shares are
  held and a SELL only when shares are held (\<open>issue_ok\<close>), so the trade log
  alternates BUY, SELL, ...; and when shares remain after the last bar, one SELL of
  all of them at the last close of \<open>data\<close> is appended, so the log ends flat.
\<close>

theorem simulator_position_invariants:
  assumes "execute_backtest data signals config = Inr res"
  shows "(\<forall>p \<in> set (r_positions res). 0 \<le> p_shares p) \<and>
         (\<forall>i<length signals. \<exists>s s'.
             simulate (resolve_config config) (take i signals) = Inr s \<and>
             state_after (resolve_config config) signals i = Inr s' \<and>
             0 \<le> shares s' \<and> issue_ok s s') \<and>
         alternating True (r_trades res) \<and> ends_flat (r_trades res) \<and>
         (\<exists>st. simulate (resolve_config config) signals = Inr st \<and> 0 \<le> shares st \<and>
            (if 0 < shares st
             then data \<noteq> [] \<and>
                  (\<exists>c k. r_trades res =
                     trades st @ [SELL (date (last data)) (shares st) (Close (last data)) c k])
             else r_trades res = trades st))"
proof -
  let ?cfg = "resolve_config config"
  from assms obtain st st' where
    sim: "simulate ?cfg signals = Inr st" and
    liq: "liquidate (cfg_commission ?cfg) (cfg_slippage ?cfg) data st = Inr st'" and
    met: "calculate_performance_metrics (equity st') (trades st') (positions st') ?cfg = Inr res"
    by (auto simp: execute_backtest_def Let_def split: sum.splits)
  from metrics_equity[OF met] have res: "r_trades res = trades st'" "r_positions res = positions st'"
    by simp_all
  from simulate_inv[OF sim] have inv: "0 \<le> shares st" "alternating True (trades st)"
    "ends_flat (trades st) = (shares st = 0)" "\<forall>p \<in> set (positions st). 0 \<le> p_shares p"
    by (auto simp: sim_inv_def)
  from liquidate_facts[OF liq] have pos: "positions st' = positions st"
    and tr: "if 0 < shares st
          then data \<noteq> [] \<and>
               (\<exists>c k. trades st' =
                  trades st @ [SELL (date (last data)) (shares st) (Close (last data)) c k])
          else trades st' = trades st"
    by simp_all
  have a: "\<forall>p \<in> set (r_positions res). 0 \<le> p_shares p"
    using inv(4) by (simp add: res pos)
  have b: "\<exists>s s'. simulate ?cfg (take i signals) = Inr s \<and>
             state_after ?cfg signals i = Inr s' \<and> 0 \<le> shares s' \<and> issue_ok s s'"
    if "i < length signals" for i
  proof -
    from simulate_steps[OF sim that] obtain s s' where
      s: "simulate ?cfg (take i signals) = Inr s" "state_after ?cfg signals i = Inr s'"
         "step (cfg_commission ?cfg) (cfg_slippage ?cfg) s (signals ! i) = Inr s'"
      by blast
    from s(2) have "sim_inv s'" by (simp add: state_after_def simulate_inv)
    then have "0 \<le> shares s'" by (simp add: sim_inv_def)
    with s step_issue_ok[OF s(3)] show ?thesis by blast
  qed
  have c: "alternating True (r_trades res) \<and> ends_flat (r_trades res)"
  proof (cases "0 < shares st")
    case True
    with tr obtain c k where
      t: "trades st' = trades st @ [SELL (date (last data)) (shares st) (Close (last data)) c k]"
      by auto
    from True inv(3) have "\<not> ends_flat (trades st)" by simp
    with inv(2) show ?thesis by (simp add: res t alternating_True_snoc) (simp add: ends_flat_def)
  next
    case False
    with tr inv show ?thesis by (simp add: res)
  qed
  have d: "\<exists>st. simulate ?cfg signals = Inr st \<and> 0 \<le> shares st \<and>
            (if 0 < shares st
             then data \<noteq> [] \<and>
                  (\<exists>c k. r_trades res =
                     trades st @ [SELL (date (last data)) (shares st) (Close (last data)) c k])
             else r_trades res = trades st)"
    using sim inv(1) tr by (auto simp: res)
  from a b c d show ?thesis by blast
qed


lemma simulate_length_equity:
  "simulate cfg bs = Inr st \<Longrightarrow> length (equity st) = Suc (length bs)"
  unfolding simulate_def by (drule run_bars_length_equity) (simp add: init_state_def)

lemma execute_backtest_returns:
  assumes "simulate (resolve_config config) signals = Inr st"
    and "0 < shares st \<longrightarrow> data \<noteq> []"
    and "signals \<noteq> [] \<or> \<not> feq (cfg_initial_capital (resolve_config config)) (Fin 0)"
  shows "\<exists>res. execute_backtest data signals config = Inr res"
proof -
  let ?cfg = "resolve_config config"
  have "\<exists>st'. liquidate (cfg_commission ?cfg) (cfg_slippage ?cfg) data st = Inr st'"
    using assms(2) by (cases data) (simp_all add: liquidate_def Let_def)
  then obtain st' where
    liq: "liquidate (cfg_commission ?cfg) (cfg_slippage ?cfg) data st = Inr st'" by blast
  have eq: "equity st' = equity st" by (rule liquidate_equity[OF liq])
  have len: "length (equity st) = Suc (length signals)"
    by (rule simulate_length_equity[OF assms(1)])
  then have ne: "equity st' \<noteq> []" by (auto simp: eq)
  have "length (equity st') \<noteq> 1 \<or> \<not> feq (cfg_initial_capital ?cfg) (Fin 0)"
    using assms(3) len by (auto simp: eq)
  from metrics_returns[OF ne this] obtain res where
    "calculate_performance_metrics (equity st') (trades st') (positions st') ?cfg = Inr res"
    by blast
  with assms(1) liq show ?thesis by (simp add: execute_backtest_def)
qed

theorem simulator_position_invariants_witness:
  "\<exists>res. execute_backtest [\<lparr>date = 0, Close = Fin 10\<rparr>, \<lparr>date = 1, Close = Fin 12\<rparr>]
            [\<lparr>date = 0, Close = Fin 10, signal = 1\<rparr>,
             \<lparr>date = 1, Close = Fin 12, signal = 0\<rparr>] None = Inr res \<and>
         (\<forall>p \<in> set (r_positions res). 0 \<le> p_shares p) \<and>
         alternating True (r_trades res) \<and> ends_flat (r_trades res) \<and>
         (\<exists>c k c' k'. r_trades res = [BUY 0 9500 (Fin 10) c k, SELL 1 9500 (Fin 12) c' k'])"
proof -
  let ?S = "[\<lparr>date = 0, Close = Fin 10, signal = 1\<rparr>,
             \<lparr>date = 1, Close = Fin 12, signal = 0\<rparr>]"
  let ?D = "[\<lparr>date = 0, Close = Fin 10\<rparr>, \<lparr>date = 1, Close = Fin 12\<rparr>]"
  obtain st where sim: "simulate (resolve_config None) ?S = Inr st"
    and sh: "shares st = 9500"
    and tr: "trades st = [BUY 0 9500 (Fin 10) (Fin (190285 / 2)) (Fin (199715 / 2))]"
    by (simp add: sim_eval)
  from execute_backtest_returns[OF sim, of ?D] obtain res where
    ex: "execute_backtest ?D ?S None = Inr res" by auto
  from simulator_position_invariants[OF ex] sim sh tr
  have "(\<forall>p \<in> set (r_positions res). 0 \<le> p_shares p) \<and>
         alternating True (r_trades res) \<and> ends_flat (r_trades res) \<and>
         (\<exists>c k c' k'. r_trades res = [BUY 0 9500 (Fin 10) c k, SELL 1 9500 (Fin 12) c' k'])"
    by auto
  with ex show ?thesis by blast
qed

lemma simulate_last_equity:
  assumes "simulate cfg signals = Inr st" "signals \<noteq> []"
  shows "last (equity st) =
           fadd (capital st) (fmul (of_py_int (shares st)) (Close (last signals)))"
proof -
  from assms(2) obtain bs b where sb: "signals = bs @ [b]"
    by (metis rev_exhaust)
  from assms(1) obtain s1 where "step (cfg_commission cfg) (cfg_slippage cfg) s1 b = Inr st"
    by (auto simp: simulate_def sb run_bars_snoc split: sum.splits)
  from step_equity[OF this] show ?thesis by (simp add: sb)
qed

lemma metrics_summary:
  assumes "calculate_performance_metrics eq ts ps cfg = Inr res"
  shows "s_final_capital (summary res) = last eq \<and>
         s_initial_capital (summary res) = cfg_initial_capital cfg \<and>
         s_total_return (summary res) =
           fmul (fdiv (fsub (last eq) (cfg_initial_capital cfg)) (cfg_initial_capital cfg)) (Fin 100) \<and>
         s_absolute_return (summary res) = fsub (last eq) (cfg_initial_capital cfg)"
  using assms
  by (auto simp: calculate_performance_metrics_def total_return_of_def Let_def
           split: if_splits)

text \<open>
  Claim C5.  When shares remain after the last bar (and \<open>data\<close> has a last row), the
  closing liquidation leaves the equity curve as the loop built it: its last entry is
  the cash before the liquidation plus the shares times the close of the last signal
  row.  The reported final capital is that entry and the total return is computed from
  it, so neither contains the fees of the closing SELL; the SELL itself records as its
  capital the cash plus \<open>shares * finalClose * (1 - commission - slippage)\<close>, with
  the last close of \<open>data\<close>.
\<close>

theorem terminal_liquidation_outside_equity:
  assumes "simulate (resolve_config config) signals = Inr st"
    and "0 < shares st" and "data \<noteq> []"
  shows "\<exists>res. execute_backtest data signals config = Inr res \<and>
           r_equity res = equity st \<and>
           last (r_equity res) =
             fadd (capital st) (fmul (of_py_int (shares st)) (Close (last signals))) \<and>
           s_final_capital (summary res) = last (r_equity res) \<and>
           s_total_return (summary res) =
             fmul (fdiv (fsub (last (r_equity res)) (cfg_initial_capital (resolve_config config)))
                        (cfg_initial_capital (resolve_config config))) (Fin 100) \<and>
           r_trades res = trades st @
             [SELL (date (last data)) (shares st) (Close (last data))
                (fmul (fmul (of_py_int (shares st)) (Close (last data)))
                   (fsub (fsub (Fin 1) (cfg_commission (resolve_config config)))
                      (cfg_slippage (resolve_config config))))
                (fadd (capital st)
                   (fmul (fmul (of_py_int (shares st)) (Close (last data)))
                      (fsub (fsub (Fin 1) (cfg_commission (resolve_config config)))
                         (cfg_slippage (resolve_config config)))))]"
proof -
  let ?cfg = "resolve_config config"
  let ?proceeds = "fmul (fmul (of_py_int (shares st)) (Close (last data)))
                   (fsub (fsub (Fin 1) (cfg_commission ?cfg)) (cfg_slippage ?cfg))"
  let ?st' = "st\<lparr>capital := fadd (capital st) ?proceeds,
                 trades := trades st @
                   [SELL (date (last data)) (shares st) (Close (last data)) ?proceeds
                      (fadd (capital st) ?proceeds)]\<rparr>"
  have ne: "signals \<noteq> []"
  proof
    assume "signals = []"
    with assms(1) have "st = init_state (cfg_initial_capital ?cfg)" by (simp add: simulate_def)
    with assms(2) show False by (simp add: init_state_def)
  qed
  have liq: "liquidate (cfg_commission ?cfg) (cfg_slippage ?cfg) data st = Inr ?st'"
    using assms(2,3) by (cases data) (simp_all add: liquidate_def Let_def)
  from execute_backtest_returns[OF assms(1), of data] assms(3) ne obtain res where
    ex: "execute_backtest data signals config = Inr res" by auto
  with assms(1) liq have met:
    "calculate_performance_metrics (equity ?st') (trades ?st') (positions ?st') ?cfg = Inr res"
    by (simp add: execute_backtest_def Let_def)
  from metrics_equity[OF met] have r: "r_equity res = equity st"
    "r_trades res = trades st @
       [SELL (date (last data)) (shares st) (Close (last data)) ?proceeds
          (fadd (capital st) ?proceeds)]"
    by simp_all
  from metrics_summary[OF met] have s: "s_final_capital (summary res) = last (equity st)"
    "s_total_return (summary res) =
       fmul (fdiv (fsub (last (equity st)) (cfg_initial_capital ?cfg)) (cfg_initial_capital ?cfg))
         (Fin 100)"
    by simp_all
  from ex r s simulate_last_equity[OF assms(1) ne] show ?thesis by simp
qed

theorem terminal_liquidation_outside_equity_witness:
  "\<exists>res. execute_backtest [\<lparr>date = 0, Close = Fin 10\<rparr>, \<lparr>date = 1, Close = Fin 12\<rparr>]
            [\<lparr>date = 0, Close = Fin 10, signal = 1\<rparr>,
             \<lparr>date = 1, Close = Fin 12, signal = 0\<rparr>] None = Inr res \<and>
         r_equity res = [Fin 100000, Fin (199715 / 2), Fin (237715 / 2)] \<and>
         s_final_capital (summary res) = Fin (237715 / 2) \<and>
         s_total_return (summary res) = Fin (37715 / 2000) \<and>
         last (r_trades res) =
           SELL 1 9500 (Fin 12) (Fin (113829)) (Fin (237373 / 2))"
proof -
  let ?S = "[\<lparr>date = 0, Close = Fin 10, signal = 1\<rparr>,
             \<lparr>date = 1, Close = Fin 12, signal = 0\<rparr>]"
  let ?D = "[\<lparr>date = 0, Close = Fin 10\<rparr>, \<lparr>date = 1, Close = Fin 12\<rparr>]"
  obtain st where sim: "simulate (resolve_config None) ?S = Inr st"
    and sh: "shares st = 9500" and cap: "capital st = Fin (9715 / 2)"
    and eq: "equity st = [Fin 100000, Fin (199715 / 2), Fin (237715 / 2)]"
    by (simp add: sim_eval)
  have h2: "0 < shares st" using sh by simp
  have h3: "?D \<noteq> []" by simp
  from terminal_liquidation_outside_equity[OF sim h2 h3] sh cap eq
  show ?thesis
    by (auto simp: sim_eval)
qed

lemma metrics_win_rate:
  assumes "calculate_performance_metrics eq ts ps cfg = Inr res"
  shows "win_rate (metrics res) = win_rate_of ts \<and>
         s_win_rate (summary res) = fmul (win_rate_of ts) (Fin 100) \<and>
         s_total_trades (summary res) = total_trades ts"
  using assms
  by (auto simp: calculate_performance_metrics_def Let_def split: if_splits sum.splits)

text \<open>
  The run behind the amendment of C7: with commission 1 and slippage 0 the simulator
  buys 95 shares at 10 and sells them at 11 for proceeds \<open>95 * 11 * (1 - 1 - 0) = 0\<close>;
  no SELL has positive proceeds and the win rate of this BUY, SELL log is 0.
\<close>

theorem win_rate_counterexample:
  "simulate \<lparr>initial_capital = Some (Fin 1000), commission = Some (Fin 1),
             slippage = Some (Fin 0)\<rparr>
     [\<lparr>date = 0, Close = Fin 10, signal = 1\<rparr>, \<lparr>date = 1, Close = Fin 11, signal = - 1\<rparr>]
   = Inr \<lparr>capital = Fin (- 900), shares = 0,
          trades = [BUY 0 95 (Fin 10) (Fin 1900) (Fin 50),
                    SELL 1 95 (Fin 11) (Fin 0) (Fin (- 900))],
          equity = [Fin 1000, Fin 50, Fin (- 900)],
          positions = [\<lparr>p_date = 0, p_shares = 95, p_price = Fin 10, p_equity = Fin 50,
                          p_capital = Fin (- 900), market_value = Fin 950\<rparr>,
                       \<lparr>p_date = 1, p_shares = 0, p_price = Fin 11, p_equity = Fin (- 900),
                          p_capital = Fin (- 900), market_value = Fin 0\<rparr>]\<rparr> \<and>
   win_rate_of [BUY 0 95 (Fin 10) (Fin 1900) (Fin 50),
                SELL 1 95 (Fin 11) (Fin 0) (Fin (- 900))] = Fin 0"
  by (simp add: sim_eval win_rate_of_def total_trades_def winning_trades_def sell_trades_def
        fgt_def)

text \<open>
  Claim C7, as amended.  For every trade log the analyzer's win rate is the number of
  SELL trades whose recorded proceeds are positive over the number of SELL trades, and
  0 when the log has no SELL.  For a log of one BUY followed by one SELL with positive
  recorded proceeds the win rate is 1, whatever the cost of the BUY.  A positive
  price alone is not enough: in the run above, with commission 1, the SELL at price 11
  records proceeds 0 and the win rate is 0.
\<close>

theorem win_rate_counts_positive_proceeds:
  assumes "calculate_performance_metrics eq ts ps cfg = Inr res"
  shows "win_rate (metrics res) =
           (if filter is_sell ts = [] then Fin 0
            else Fin (real (length (filter (\<lambda>t. fgt (proceeds t) (Fin 0)) (filter is_sell ts))) /
                      real (length (filter is_sell ts)))) \<and>
         (\<forall>d n pr c k d' n' pr' p k'.
             ts = [BUY d n pr c k, SELL d' n' pr' p k'] \<and> fgt p (Fin 0) \<longrightarrow>
             win_rate (metrics res) = Fin 1)"
  using metrics_win_rate[OF assms]
  by (auto simp: win_rate_of_def total_trades_def winning_trades_def sell_trades_def)

theorem win_rate_counts_positive_proceeds_witness:
  "\<exists>res. calculate_performance_metrics [Fin 100, Fin 90]
            [BUY 0 9 (Fin 10) (Fin 200) (Fin 99), SELL 1 9 (Fin 11) (Fin 98) (Fin 107)] []
            default_config = Inr res \<and>
         win_rate (metrics res) = Fin 1"
proof -
  obtain res where m: "calculate_performance_metrics [Fin 100, Fin 90]
            [BUY 0 9 (Fin 10) (Fin 200) (Fin 99), SELL 1 9 (Fin 11) (Fin 98) (Fin 107)] []
            default_config = Inr res"
    using metrics_returns[of "[Fin 100, Fin 90]" default_config] by auto
  have "fgt (Fin 98) (Fin 0)" by (simp add: fgt_def)
  with win_rate_counts_positive_proceeds[OF m] have "win_rate (metrics res) = Fin 1"
    by blast
  with m show ?thesis by blast
qed

section \<open>Facts about the strategies\<close>

lemmas prog_defs = pbind_def get_col_def set_col_def set_const_def loc_set_def lift_def ret_def
  nrows_def

lemma length_rolling_mean [simp]: "length (rolling_mean xs w) = length xs"
  by (simp add: rolling_mean_def)

lemma length_rolling_std [simp]: "length (rolling_std xs w) = length xs"
  by (simp add: rolling_std_def)

lemma length_loc_assign [simp]: "length (loc_assign m v col) = min (length m) (length col)"
  by (simp add: loc_assign_def)

lemma length_series_cmp [simp]: "length (series_cmp f xs ys) = min (length xs) (length ys)"
  by (simp add: series_cmp_def)

lemma length_series_op [simp]: "length (series_op f xs ys) = min (length xs) (length ys)"
  by (simp add: series_op_def)

lemma length_mask_and [simp]: "length (mask_and xs ys) = min (length xs) (length ys)"
  by (simp add: mask_and_def)

lemma nth_loc_assign:
  "i < length m \<Longrightarrow> i < length col \<Longrightarrow>
   loc_assign m v col ! i = (if m ! i then v else col ! i)"
  by (simp add: loc_assign_def)

lemma nth_series_cmp:
  "i < length xs \<Longrightarrow> i < length ys \<Longrightarrow> series_cmp f xs ys ! i = f (xs ! i) (ys ! i)"
  by (simp add: series_cmp_def)

lemma nth_series_op:
  "i < length xs \<Longrightarrow> i < length ys \<Longrightarrow> series_op f xs ys ! i = f (xs ! i) (ys ! i)"
  by (simp add: series_op_def)

lemma nth_mask_and:
  "i < length xs \<Longrightarrow> i < length ys \<Longrightarrow> mask_and xs ys ! i = (xs ! i \<and> ys ! i)"
  by (simp add: mask_and_def)

lemma ma_result:
  assumes "moving_average_crossover a params h = (Inr r, h')"
  obtains c fw sw where
    "h a ''Close'' = Some c"
    "window_of (dict_get (params_or params ma_defaults ''fast_period'') (PInt 10)) = Inr fw"
    "window_of (dict_get (params_or params ma_defaults ''slow_period'') (PInt 20)) = Inr sw"
    "r = a"
    "h' a ''fast_ma'' = Some (rolling_mean c fw)"
    "h' a ''slow_ma'' = Some (rolling_mean c sw)"
    "h' a ''signal'' = Some
       (loc_assign (series_cmp flt (rolling_mean c fw) (rolling_mean c sw)) (Fin (- 1))
         (loc_assign (series_cmp fgt (rolling_mean c fw) (rolling_mean c sw)) (Fin 1)
           (replicate (length c) (Fin 0))))"
proof (cases "h a ''Close''")
  case None
  with assms show ?thesis by (simp add: moving_average_crossover_def prog_defs Let_def)
next
  case (Some c)
  show ?thesis
  proof (cases "window_of (dict_get (params_or params ma_defaults ''fast_period'') (PInt 10))")
    case (Inl e)
    with assms Some show ?thesis by (simp add: moving_average_crossover_def prog_defs Let_def)
  next
    case fw: (Inr fw)
    show ?thesis
    proof (cases "window_of (dict_get (params_or params ma_defaults ''slow_period'') (PInt 20))")
      case (Inl e)
      with assms Some fw show ?thesis
        by (simp add: moving_average_crossover_def prog_defs Let_def)
    next
      case sw: (Inr sw)
      from assms Some fw sw have "r = a \<and>
        h' a ''fast_ma'' = Some (rolling_mean c fw) \<and>
        h' a ''slow_ma'' = Some (rolling_mean c sw) \<and>
        h' a ''signal'' = Some
          (loc_assign (series_cmp flt (rolling_mean c fw) (rolling_mean c sw)) (Fin (- 1))
            (loc_assign (series_cmp fgt (rolling_mean c fw) (rolling_mean c sw)) (Fin 1)
              (replicate (length c) (Fin 0))))"
        by (auto simp add: moving_average_crossover_def prog_defs Let_def)
      with Some fw sw that show ?thesis by blast
    qed
  qed
qed

text \<open>
  Claim C9.  After a run of the moving-average crossover that returns, at every bar
  where both moving averages are numbers the signal is the sign of their difference:
  \<open>+1\<close> when the fast average is above the slow one, \<open>-1\<close> when it is below and
  \<open>0\<close> when they are equal.
\<close>

theorem ma_signal_sign:
  assumes "moving_average_crossover a params h = (Inr r, h')"
    and "h' a ''fast_ma'' = Some fast_ma" "h' a ''slow_ma'' = Some slow_ma"
    and "h' a ''signal'' = Some sg"
    and "i < length sg" "fast_ma ! i = Fin x" "slow_ma ! i = Fin y"
  shows "sg ! i = Fin (sgn (x - y))"
proof -
  from assms(1) obtain c fw sw where
    f: "h' a ''fast_ma'' = Some (rolling_mean c fw)" and
    s: "h' a ''slow_ma'' = Some (rolling_mean c sw)" and
    g: "h' a ''signal'' = Some
       (loc_assign (series_cmp flt (rolling_mean c fw) (rolling_mean c sw)) (Fin (- 1))
         (loc_assign (series_cmp fgt (rolling_mean c fw) (rolling_mean c sw)) (Fin 1)
           (replicate (length c) (Fin 0))))"
    by (rule ma_result)
  from f s g assms(2-4) have F: "fast_ma = rolling_mean c fw" and S: "slow_ma = rolling_mean c sw"
    and G: "sg = loc_assign (series_cmp flt fast_ma slow_ma) (Fin (- 1))
         (loc_assign (series_cmp fgt fast_ma slow_ma) (Fin 1) (replicate (length c) (Fin 0)))"
    by simp_all
  from assms(5) have i: "i < length c" by (simp add: G F S)
  then have il: "i < length fast_ma" "i < length slow_ma" by (simp_all add: F S)
  have "sg ! i = (if flt (fast_ma ! i) (slow_ma ! i) then Fin (- 1)
                  else if fgt (fast_ma ! i) (slow_ma ! i) then Fin 1 else Fin 0)"
    using i il unfolding G by (simp add: nth_loc_assign nth_series_cmp)
  then show ?thesis
    using assms(6,7) by (simp add: fgt_def sgn_real_def)
qed


lemmas series_eval = rolling_mean_def roll_mean_at_def window_at_def rolling_std_def
  roll_std_at_def is_fin_def the_real_def series_cmp_def series_op_def mask_and_def
  loc_assign_def diff_s_def shift_def where_s_def fgt_def fge_def fsub_def

lemmas param_eval = params_or_def dict_get_def window_of_def periods_of_def num_of_def

theorem ma_signal_sign_witness:
  "\<exists>r h' sg.
     moving_average_crossover 0 (Some [''fast_period'' \<mapsto> PInt 1, ''slow_period'' \<mapsto> PInt 2])
       ((\<lambda>_. Map.empty)(0 := [''Close'' \<mapsto> [Fin 1, Fin 3, Fin 3, Fin 1]])) = (Inr r, h') \<and>
     h' 0 ''signal'' = Some sg \<and> sg ! 1 = Fin 1 \<and> sg ! 2 = Fin 0 \<and> sg ! 3 = Fin (- 1)"
proof -
  let ?P = "Some [''fast_period'' \<mapsto> PInt 1, ''slow_period'' \<mapsto> PInt 2]"
  let ?H = "(\<lambda>_. Map.empty)(0 := [''Close'' \<mapsto> [Fin 1, Fin 3, Fin 3, Fin 1]])"
  obtain r h' where run: "moving_average_crossover 0 ?P ?H = (Inr r, h')"
    and f: "h' 0 ''fast_ma'' = Some [Fin 1, Fin 3, Fin 3, Fin 1]"
    and s: "h' 0 ''slow_ma'' = Some [NaN, Fin 2, Fin 3, Fin 2]"
    and g: "\<exists>sg. h' 0 ''signal'' = Some sg \<and> length sg = 4"
    by (simp add: moving_average_crossover_def prog_defs Let_def param_eval series_eval)
  from g obtain sg where sg: "h' 0 ''signal'' = Some sg" and len: "length sg = 4" by blast
  have "sg ! 1 = Fin (sgn (3 - 2))"
    using ma_signal_sign[OF run f s sg, of 1 3 2] len by simp
  moreover have "sg ! 2 = Fin (sgn (3 - 3))"
    using ma_signal_sign[OF run f s sg, of 2 3 3] len by simp
  moreover have "sg ! 3 = Fin (sgn (1 - 2))"
    using ma_signal_sign[OF run f s sg, of 3 1 2] len by simp
  ultimately show ?thesis using run sg by auto
qed

lemma strategies_None:
  assumes "strategy_name \<notin> {''moving-average-crossover'', ''mean-reversion'', ''momentum'',
             ''bollinger-bands'', ''rsi-divergence'', ''macd-crossover''}"
  shows "strategies strategy_name = None"
  using assms unfolding strategies_def by (simp del: insert_iff add: insert_iff)

text \<open>
  Claim C10.  \<open>execute_strategy\<close> with a name outside the six keys of the strategy
  dictionary raises ValueError (the program's invalid-argument error) and leaves the
  store, and so the input frame and every other frame, as it was.
\<close>

theorem execute_strategy_unknown:
  assumes "strategy_name \<notin> {''moving-average-crossover'', ''mean-reversion'', ''momentum'',
             ''bollinger-bands'', ''rsi-divergence'', ''macd-crossover''}"
  shows "execute_strategy strategy_name a params h = (Inl ValueError, h)"
  using strategies_None[OF assms] by (simp add: execute_strategy_def lift_def)

theorem execute_strategy_unknown_witness:
  "execute_strategy ''buy-and-hold'' 0 None
     ((\<lambda>_. Map.empty)(0 := [''Close'' \<mapsto> [Fin 1, Fin 3, Fin 3, Fin 1]]))
   = (Inl ValueError, (\<lambda>_. Map.empty)(0 := [''Close'' \<mapsto> [Fin 1, Fin 3, Fin 3, Fin 1]]))"
  using execute_strategy_unknown[of "''buy-and-hold''" 0 None
          "(\<lambda>_. Map.empty)(0 := [''Close'' \<mapsto> [Fin 1, Fin 3, Fin 3, Fin 1]])"]
  by simp

lemma bollinger_columns_eq:
  "bollinger_columns a period mult h =
     (case h a ''Close'' of
        None \<Rightarrow> (Inl KeyError, h)
      | Some c \<Rightarrow>
         (case window_of period of
            Inl e \<Rightarrow> (Inl e, h)
          | Inr w \<Rightarrow>
             (Inr (), h(a := (h a)
                (''bb_middle'' \<mapsto> rolling_mean c w,
                 ''bb_std'' \<mapsto> rolling_std c w,
                 ''bb_upper'' \<mapsto> series_op fadd (rolling_mean c w)
                                  (map (\<lambda>x. fmul x (num_of mult)) (rolling_std c w)),
                 ''bb_lower'' \<mapsto> series_op fsub (rolling_mean c w)
                                  (map (\<lambda>x. fmul x (num_of mult)) (rolling_std c w)))))))"
  by (simp add: bollinger_columns_def prog_defs split: option.splits sum.splits)

lemma bb_result:
  assumes "bollinger_bands a params h = (Inr r, h')"
  obtains c w where
    "h a ''Close'' = Some c"
    "window_of (dict_get (params_or params bb_defaults ''period'') (PInt 20)) = Inr w"
    "r = a"
    "h' a ''bb_upper'' = Some (series_op fadd (rolling_mean c w)
        (map (\<lambda>x. fmul x (num_of (dict_get (params_or params bb_defaults ''std'') (PInt 2))))
           (rolling_std c w)))"
    "h' a ''bb_lower'' = Some (series_op fsub (rolling_mean c w)
        (map (\<lambda>x. fmul x (num_of (dict_get (params_or params bb_defaults ''std'') (PInt 2))))
           (rolling_std c w)))"
    "h' a ''signal'' = Some
       (loc_assign (series_cmp fge c (series_op fadd (rolling_mean c w)
            (map (\<lambda>x. fmul x (num_of (dict_get (params_or params bb_defaults ''std'') (PInt 2))))
               (rolling_std c w)))) (Fin (- 1))
         (loc_assign (series_cmp fle c (series_op fsub (rolling_mean c w)
            (map (\<lambda>x. fmul x (num_of (dict_get (params_or params bb_defaults ''std'') (PInt 2))))
               (rolling_std c w)))) (Fin 1)
           (replicate (length c) (Fin 0))))"
  using assms
  by (auto simp: bollinger_bands_def bollinger_columns_eq prog_defs Let_def
           split: option.splits sum.splits)

lemma length_shift [simp]: "length (shift xs n) = length xs"
  by (auto simp: shift_def)

lemma length_ffill_from [simp]: "length (ffill_from p xs) = length xs"
  by (induction xs arbitrary: p) auto

lemma length_np_diff [simp]: "length (np_diff xs) = length xs - 1"
  by (induction xs rule: np_diff.induct) auto

lemma length_diff_s [simp]: "length (diff_s xs) = length xs"
  by (cases xs) (auto simp: diff_s_def)

lemma length_where_s [simp]: "length (where_s f v xs) = length xs"
  by (simp add: where_s_def)

lemma length_pct_change [simp]: "length (pct_change xs n) = length xs"
  by (simp add: pct_change_def Let_def)

lemma length_rsi_series [simp]: "length (rsi_series c n) = length c"
  by (simp add: rsi_series_def rsi_gain_def rsi_loss_def Let_def)

lemma length_ewm_loop [simp]: "length (ewm_loop al w ow xs) = length xs"
  by (induction xs arbitrary: w ow) (auto simp: Let_def)

lemma length_ewm_mean [simp]: "length (ewm_mean xs al) = length xs"
  by (cases xs) (auto simp: ewm_mean_def)

lemma mr_result:
  assumes "mean_reversion a params h = (Inr r, h')"
  obtains c w n where
    "h a ''Close'' = Some c"
    "window_of (dict_get (params_or params mr_defaults ''bb_period'') (PInt 20)) = Inr w"
    "window_of (dict_get (params_or params mr_defaults ''rsi_period'') (PInt 14)) = Inr n"
    "r = a"
    "h' a ''bb_upper'' = Some (series_op fadd (rolling_mean c w) (map (\<lambda>x. fmul x (num_of (dict_get (params_or params mr_defaults ''bb_std'') (PInt 2)))) (rolling_std c w)))"
    "h' a ''bb_lower'' = Some (series_op fsub (rolling_mean c w) (map (\<lambda>x. fmul x (num_of (dict_get (params_or params mr_defaults ''bb_std'') (PInt 2)))) (rolling_std c w)))"
    "h' a ''rsi'' = Some (rsi_series c n)"
    "h' a ''signal'' = Some (loc_assign (mask_and (series_cmp fge c (map (\<lambda>x. fmul x (Fin (99 / 100))) (series_op fadd (rolling_mean c w) (map (\<lambda>x. fmul x (num_of (dict_get (params_or params mr_defaults ''bb_std'') (PInt 2)))) (rolling_std c w))))) (map (\<lambda>r. fge r (num_of (dict_get (params_or params mr_defaults ''rsi_overbought'') (PInt 70)))) (rsi_series c n))) (Fin (- 1)) (loc_assign (mask_and (series_cmp fle c (map (\<lambda>x. fmul x (Fin (101 / 100))) (series_op fsub (rolling_mean c w) (map (\<lambda>x. fmul x (num_of (dict_get (params_or params mr_defaults ''bb_std'') (PInt 2)))) (rolling_std c w))))) (map (\<lambda>r. fle r (num_of (dict_get (params_or params mr_defaults ''rsi_oversold'') (PInt 30)))) (rsi_series c n))) (Fin 1) (replicate (length c) (Fin 0))))"
  using assms
  by (auto simp: mean_reversion_def bollinger_columns_eq prog_defs Let_def
           split: option.splits sum.splits)

lemma momentum_result:
  assumes "momentum a params h = (Inr r, h')"
  obtains c n where
    "h a ''Close'' = Some c"
    "periods_of (dict_get (params_or params momentum_defaults ''lookback_period'') (PInt 20)) = Inr n"
    "r = a"
    "h' a ''momentum'' = Some (pct_change c n)"
    "h' a ''signal'' = Some (loc_assign (map (\<lambda>x. flt x (fneg (num_of (dict_get (params_or params momentum_defaults ''threshold'') (PFloat (Fin (5 / 100))))))) (pct_change c n)) (Fin (- 1)) (loc_assign (map (\<lambda>x. fgt x (num_of (dict_get (params_or params momentum_defaults ''threshold'') (PFloat (Fin (5 / 100)))))) (pct_change c n)) (Fin 1) (replicate (length c) (Fin 0))))"
  using assms
  by (auto simp: momentum_def prog_defs Let_def split: option.splits sum.splits)

lemma rsi_result:
  assumes "rsi_divergence a params h = (Inr r, h')"
  obtains c n dp where
    "h a ''Close'' = Some c"
    "window_of (dict_get (params_or params rsi_defaults ''period'') (PInt 14)) = Inr n"
    "window_of (dict_get (params_or params rsi_defaults ''divergence_period'') (PInt 20)) = Inr dp"
    "r = a"
    "h' a ''rsi'' = Some (rsi_series c n)"
    "h' a ''signal'' = Some (loc_assign (mask_and (mask_and (series_cmp fgt c (shift c (int dp))) (series_cmp flt (rsi_series c n) (shift (rsi_series c n) (int dp)))) (map (\<lambda>r. fgt r (Fin 60)) (rsi_series c n))) (Fin (- 1)) (loc_assign (mask_and (mask_and (series_cmp flt c (shift c (int dp))) (series_cmp fgt (rsi_series c n) (shift (rsi_series c n) (int dp)))) (map (\<lambda>r. flt r (Fin 40)) (rsi_series c n))) (Fin 1) (replicate (length c) (Fin 0))))"
  using assms
  by (auto simp: rsi_divergence_def prog_defs Let_def split: option.splits sum.splits)

lemma macd_result:
  assumes "macd_crossover a params h = (Inr r, h')"
  obtains c af as ag where
    "h a ''Close'' = Some c"
    "span_alpha (dict_get (params_or params macd_defaults ''fast'') (PInt 12)) = Inr af"
    "span_alpha (dict_get (params_or params macd_defaults ''slow'') (PInt 26)) = Inr as"
    "span_alpha (dict_get (params_or params macd_defaults ''signal'') (PInt 9)) = Inr ag"
    "r = a"
    "h' a ''macd'' = Some (series_op fsub (ewm_mean c af) (ewm_mean c as))"
    "h' a ''macd_signal'' = Some (ewm_mean (series_op fsub (ewm_mean c af) (ewm_mean c as)) ag)"
    "h' a ''signal'' = Some (loc_assign (mask_and (series_cmp flt (series_op fsub (ewm_mean c af) (ewm_mean c as)) (ewm_mean (series_op fsub (ewm_mean c af) (ewm_mean c as)) ag)) (series_cmp fge (shift (series_op fsub (ewm_mean c af) (ewm_mean c as)) 1) (shift (ewm_mean (series_op fsub (ewm_mean c af) (ewm_mean c as)) ag) 1))) (Fin (- 1)) (loc_assign (mask_and (series_cmp fgt (series_op fsub (ewm_mean c af) (ewm_mean c as)) (ewm_mean (series_op fsub (ewm_mean c af) (ewm_mean c as)) ag)) (series_cmp fle (shift (series_op fsub (ewm_mean c af) (ewm_mean c as)) 1) (shift (ewm_mean (series_op fsub (ewm_mean c af) (ewm_mean c as)) ag) 1))) (Fin 1) (replicate (length c) (Fin 0))))"
  using assms
  by (auto simp: macd_crossover_def prog_defs Let_def split: option.splits sum.splits)

lemma flt_NaN [simp]: "\<not> flt x NaN" "\<not> flt NaN x" "\<not> fle x NaN" "\<not> fle NaN x"
  by (cases x; simp)+

lemma fgt_NaN [simp]: "\<not> fgt x NaN" "\<not> fgt NaN x" "\<not> fge x NaN" "\<not> fge NaN x"
  by (simp_all add: fgt_def fge_def)

lemma arith_NaN [simp]:
  "fadd x NaN = NaN" "fadd NaN x = NaN" "fsub x NaN = NaN" "fsub NaN x = NaN"
  "fmul x NaN = NaN" "fmul NaN x = NaN" "fdiv x NaN = NaN" "fdiv NaN x = NaN"
  by (cases x; simp add: fsub_def)+

lemma fadd_Fin_NaN: "fadd (Fin m) t = NaN \<longleftrightarrow> t = NaN"
  by (cases t) simp_all

lemma fsub_Fin_NaN: "fsub (Fin m) t = NaN \<longleftrightarrow> t = NaN"
  by (cases t) (simp_all add: fsub_def)

lemma nth_rolling_mean: "i < length xs \<Longrightarrow> rolling_mean xs w ! i = roll_mean_at xs w i"
  by (simp add: rolling_mean_def)

lemma nth_rolling_std: "i < length xs \<Longrightarrow> rolling_std xs w ! i = roll_std_at xs w i"
  by (simp add: rolling_std_def)

lemma roll_mean_at_warm: "Suc i < w \<Longrightarrow> roll_mean_at xs w i = NaN"
  by (simp add: roll_mean_at_def)

lemma roll_mean_at_cases: "roll_mean_at xs w i = NaN \<or> (\<exists>m. roll_mean_at xs w i = Fin m)"
  by (simp add: roll_mean_at_def Let_def)

lemma length_rsi_gain [simp]: "length (rsi_gain c n) = length c"
  by (simp add: rsi_gain_def)

lemma length_rsi_loss [simp]: "length (rsi_loss c n) = length c"
  by (simp add: rsi_loss_def)

lemma nth_rsi_series:
  "i < length c \<Longrightarrow>
   rsi_series c n ! i =
     fsub (Fin 100) (fdiv (Fin 100) (fadd (Fin 1) (fdiv (rsi_gain c n ! i) (rsi_loss c n ! i))))"
  by (simp add: rsi_series_def Let_def nth_series_op)

lemma rsi_gain_warm: "i < length c \<Longrightarrow> Suc i < n \<Longrightarrow> rsi_gain c n ! i = NaN"
  by (simp add: rsi_gain_def nth_rolling_mean roll_mean_at_warm)

lemma rsi_series_warm: "i < length c \<Longrightarrow> Suc i < n \<Longrightarrow> rsi_series c n ! i = NaN"
  by (simp add: nth_rsi_series rsi_gain_warm)

lemma shift_warm: "i < length xs \<Longrightarrow> i < n \<Longrightarrow> shift xs (int n) ! i = NaN"
  by (simp add: shift_def nth_append)

lemma shift_past: "n \<le> i \<Longrightarrow> i < length xs \<Longrightarrow> shift xs (int n) ! i = xs ! (i - n)"
  by (simp add: shift_def nth_append min_def)

lemma shift_warm_int: "i < length xs \<Longrightarrow> int i < n \<Longrightarrow> shift xs n ! i = NaN"
  using shift_warm[of i xs "nat n"] by simp

lemma pct_change_warm: "i < length xs \<Longrightarrow> int i < n \<Longrightarrow> pct_change xs n ! i = NaN"
  by (simp add: pct_change_def Let_def nth_series_op shift_warm_int)

lemma loc2_zero:
  assumes "i < n" "length m1 = n" "length m2 = n" "\<not> m1 ! i" "\<not> m2 ! i"
  shows "loc_assign m2 v2 (loc_assign m1 v1 (replicate n (Fin 0))) ! i = Fin 0"
  using assms by (simp add: nth_loc_assign)

lemma nrows_Close: "f ''Close'' = Some c \<Longrightarrow> nrows f = length c"
  by (simp add: nrows_def)

lemma ma_warmup:
  assumes run: "moving_average_crossover a params h = (Inr r, h')" and i: "i < nrows (h a)"
    and cond: "undefined_at (h' a) ''fast_ma'' i \<or> undefined_at (h' a) ''slow_ma'' i \<or>
               warming (dict_get (params_or params ma_defaults ''fast_period'') (PInt 10)) i \<or> warming (dict_get (params_or params ma_defaults ''slow_period'') (PInt 20)) i"
  shows "signal_at (h' a) i = Some (Fin 0)"
proof -
  from run obtain c fw sw where
    c: "h a ''Close'' = Some c" and
    fw: "window_of (dict_get (params_or params ma_defaults ''fast_period'') (PInt 10)) = Inr fw" and
    sw: "window_of (dict_get (params_or params ma_defaults ''slow_period'') (PInt 20)) = Inr sw" and
    f: "h' a ''fast_ma'' = Some (rolling_mean c fw)" and
    s: "h' a ''slow_ma'' = Some (rolling_mean c sw)" and
    g: "h' a ''signal'' = Some
       (loc_assign (series_cmp flt (rolling_mean c fw) (rolling_mean c sw)) (Fin (- 1))
         (loc_assign (series_cmp fgt (rolling_mean c fw) (rolling_mean c sw)) (Fin 1)
           (replicate (length c) (Fin 0))))"
    by (rule ma_result)
  from i c have ic: "i < length c" by (simp add: nrows_Close)
  from cond have "rolling_mean c fw ! i = NaN \<or> rolling_mean c sw ! i = NaN"
    using ic by (auto simp: undefined_at_def warming_def f s fw sw nth_rolling_mean roll_mean_at_warm)
  then have "\<not> series_cmp fgt (rolling_mean c fw) (rolling_mean c sw) ! i"
       "\<not> series_cmp flt (rolling_mean c fw) (rolling_mean c sw) ! i"
    using ic by (auto simp: nth_series_cmp)
  then show ?thesis
    using ic by (simp add: signal_at_def g nth_loc_assign)
qed

lemma bands_NaN:
  assumes "i < length c"
  shows "series_op fadd (rolling_mean c w) (map (\<lambda>x. fmul x k) (rolling_std c w)) ! i = NaN \<longleftrightarrow>
         series_op fsub (rolling_mean c w) (map (\<lambda>x. fmul x k) (rolling_std c w)) ! i = NaN"
  using assms roll_mean_at_cases[of c w i]
  by (auto simp: nth_series_op nth_rolling_mean fadd_Fin_NaN fsub_Fin_NaN)

lemma bands_warm:
  assumes "i < length c" "Suc i < w"
  shows "series_op fsub (rolling_mean c w) (map (\<lambda>x. fmul x k) (rolling_std c w)) ! i = NaN"
  using assms by (simp add: nth_series_op nth_rolling_mean roll_mean_at_warm)

lemma bb_warmup:
  assumes run: "bollinger_bands a params h = (Inr r, h')" and i: "i < nrows (h a)"
    and cond: "undefined_at (h' a) ''bb_lower'' i \<or> undefined_at (h' a) ''bb_upper'' i \<or>
               warming (dict_get (params_or params bb_defaults ''period'') (PInt 20)) i"
  shows "signal_at (h' a) i = Some (Fin 0)"
proof -
  from run obtain c w where
    c: "h a ''Close'' = Some c" and
    w: "window_of (dict_get (params_or params bb_defaults ''period'') (PInt 20)) = Inr w" and
    u: "h' a ''bb_upper'' = Some (series_op fadd (rolling_mean c w) (map (\<lambda>x. fmul x (num_of (dict_get (params_or params bb_defaults ''std'') (PInt 2)))) (rolling_std c w)))" and
    l: "h' a ''bb_lower'' = Some (series_op fsub (rolling_mean c w) (map (\<lambda>x. fmul x (num_of (dict_get (params_or params bb_defaults ''std'') (PInt 2)))) (rolling_std c w)))" and
    g: "h' a ''signal'' = Some
       (loc_assign (series_cmp fge c (series_op fadd (rolling_mean c w) (map (\<lambda>x. fmul x (num_of (dict_get (params_or params bb_defaults ''std'') (PInt 2)))) (rolling_std c w)))) (Fin (- 1))
         (loc_assign (series_cmp fle c (series_op fsub (rolling_mean c w) (map (\<lambda>x. fmul x (num_of (dict_get (params_or params bb_defaults ''std'') (PInt 2)))) (rolling_std c w)))) (Fin 1)
           (replicate (length c) (Fin 0))))"
    by (rule bb_result)
  from i c have ic: "i < length c" by (simp add: nrows_Close)
  from cond have lo: "(series_op fsub (rolling_mean c w) (map (\<lambda>x. fmul x (num_of (dict_get (params_or params bb_defaults ''std'') (PInt 2)))) (rolling_std c w))) ! i = NaN"
    using ic bands_NaN[OF ic, of w "num_of (dict_get (params_or params bb_defaults ''std'') (PInt 2))"] bands_warm[OF ic, of w "num_of (dict_get (params_or params bb_defaults ''std'') (PInt 2))"]
    by (auto simp: undefined_at_def warming_def u l w)
  with bands_NaN[OF ic, of w "num_of (dict_get (params_or params bb_defaults ''std'') (PInt 2))"]
  have up: "(series_op fadd (rolling_mean c w) (map (\<lambda>x. fmul x (num_of (dict_get (params_or params bb_defaults ''std'') (PInt 2)))) (rolling_std c w))) ! i = NaN" by simp
  have "\<not> series_cmp fle c (series_op fsub (rolling_mean c w) (map (\<lambda>x. fmul x (num_of (dict_get (params_or params bb_defaults ''std'') (PInt 2)))) (rolling_std c w))) ! i" "\<not> series_cmp fge c (series_op fadd (rolling_mean c w) (map (\<lambda>x. fmul x (num_of (dict_get (params_or params bb_defaults ''std'') (PInt 2)))) (rolling_std c w))) ! i"
    using ic lo up by (simp_all add: nth_series_cmp)
  then show ?thesis
    using ic by (simp add: signal_at_def g nth_loc_assign)
qed

lemma mr_warmup:
  assumes run: "mean_reversion a params h = (Inr r, h')" and i: "i < nrows (h a)"
    and cond: "undefined_at (h' a) ''bb_lower'' i \<or> undefined_at (h' a) ''bb_upper'' i \<or>
               undefined_at (h' a) ''rsi'' i \<or>
               warming (dict_get (params_or params mr_defaults ''bb_period'') (PInt 20)) i \<or> warming (dict_get (params_or params mr_defaults ''rsi_period'') (PInt 14)) i"
  shows "signal_at (h' a) i = Some (Fin 0)"
proof -
  from run obtain c w n where
    c: "h a ''Close'' = Some c" and
    w: "window_of (dict_get (params_or params mr_defaults ''bb_period'') (PInt 20)) = Inr w" and
    n: "window_of (dict_get (params_or params mr_defaults ''rsi_period'') (PInt 14)) = Inr n" and
    u: "h' a ''bb_upper'' = Some (series_op fadd (rolling_mean c w) (map (\<lambda>x. fmul x (num_of (dict_get (params_or params mr_defaults ''bb_std'') (PInt 2)))) (rolling_std c w)))" and
    l: "h' a ''bb_lower'' = Some (series_op fsub (rolling_mean c w) (map (\<lambda>x. fmul x (num_of (dict_get (params_or params mr_defaults ''bb_std'') (PInt 2)))) (rolling_std c w)))" and
    rs: "h' a ''rsi'' = Some (rsi_series c n)" and
    g: "h' a ''signal'' = Some
       (loc_assign (mask_and (series_cmp fge c (map (\<lambda>x. fmul x (Fin (99 / 100))) (series_op fadd (rolling_mean c w) (map (\<lambda>x. fmul x (num_of (dict_get (params_or params mr_defaults ''bb_std'') (PInt 2)))) (rolling_std c w))))) (map (\<lambda>r. fge r (num_of (dict_get (params_or params mr_defaults ''rsi_overbought'') (PInt 70)))) (rsi_series c n))) (Fin (- 1))
         (loc_assign (mask_and (series_cmp fle c (map (\<lambda>x. fmul x (Fin (101 / 100))) (series_op fsub (rolling_mean c w) (map (\<lambda>x. fmul x (num_of (dict_get (params_or params mr_defaults ''bb_std'') (PInt 2)))) (rolling_std c w))))) (map (\<lambda>r. fle r (num_of (dict_get (params_or params mr_defaults ''rsi_oversold'') (PInt 30)))) (rsi_series c n))) (Fin 1)
           (replicate (length c) (Fin 0))))"
    by (rule mr_result)
  from i c have ic: "i < length c" by (simp add: nrows_Close)
  from cond have "(rsi_series c n) ! i = NaN \<or> (series_op fsub (rolling_mean c w) (map (\<lambda>x. fmul x (num_of (dict_get (params_or params mr_defaults ''bb_std'') (PInt 2)))) (rolling_std c w))) ! i = NaN"
    using ic bands_NaN[OF ic, of w "num_of (dict_get (params_or params mr_defaults ''bb_std'') (PInt 2))"] bands_warm[OF ic, of w "num_of (dict_get (params_or params mr_defaults ''bb_std'') (PInt 2))"]
      rsi_series_warm[OF ic, of n]
    by (auto simp: undefined_at_def warming_def u l rs w n)
  then have "(rsi_series c n) ! i = NaN \<or>
      ((series_op fsub (rolling_mean c w) (map (\<lambda>x. fmul x (num_of (dict_get (params_or params mr_defaults ''bb_std'') (PInt 2)))) (rolling_std c w))) ! i = NaN \<and> (series_op fadd (rolling_mean c w) (map (\<lambda>x. fmul x (num_of (dict_get (params_or params mr_defaults ''bb_std'') (PInt 2)))) (rolling_std c w))) ! i = NaN)"
    using bands_NaN[OF ic, of w "num_of (dict_get (params_or params mr_defaults ''bb_std'') (PInt 2))"] by blast
  then have "\<not> (mask_and (series_cmp fle c (map (\<lambda>x. fmul x (Fin (101 / 100))) (series_op fsub (rolling_mean c w) (map (\<lambda>x. fmul x (num_of (dict_get (params_or params mr_defaults ''bb_std'') (PInt 2)))) (rolling_std c w))))) (map (\<lambda>r. fle r (num_of (dict_get (params_or params mr_defaults ''rsi_oversold'') (PInt 30)))) (rsi_series c n))) ! i" "\<not> (mask_and (series_cmp fge c (map (\<lambda>x. fmul x (Fin (99 / 100))) (series_op fadd (rolling_mean c w) (map (\<lambda>x. fmul x (num_of (dict_get (params_or params mr_defaults ''bb_std'') (PInt 2)))) (rolling_std c w))))) (map (\<lambda>r. fge r (num_of (dict_get (params_or params mr_defaults ''rsi_overbought'') (PInt 70)))) (rsi_series c n))) ! i"
    using ic by (auto simp: nth_mask_and nth_series_cmp)
  then show ?thesis
    using ic by (simp add: signal_at_def g nth_loc_assign)
qed

lemma momentum_warmup:
  assumes run: "momentum a params h = (Inr r, h')" and i: "i < nrows (h a)"
    and cond: "undefined_at (h' a) ''momentum'' i \<or>
               ((dict_get (params_or params momentum_defaults ''lookback_period'') (PInt 20)) = PInt k \<and> int i < k)"
  shows "signal_at (h' a) i = Some (Fin 0)"
proof -
  from run obtain c n where
    c: "h a ''Close'' = Some c" and
    n: "periods_of (dict_get (params_or params momentum_defaults ''lookback_period'') (PInt 20)) = Inr n" and
    m: "h' a ''momentum'' = Some (pct_change c n)" and
    g: "h' a ''signal'' = Some
       (loc_assign (map (\<lambda>x. flt x (fneg (num_of (dict_get (params_or params momentum_defaults ''threshold'') (PFloat (Fin (5 / 100))))))) (pct_change c n)) (Fin (- 1))
         (loc_assign (map (\<lambda>x. fgt x (num_of (dict_get (params_or params momentum_defaults ''threshold'') (PFloat (Fin (5 / 100)))))) (pct_change c n)) (Fin 1)
           (replicate (length c) (Fin 0))))"
    by (rule momentum_result)
  from i c have ic: "i < length c" by (simp add: nrows_Close)
  from cond have "(pct_change c n) ! i = NaN"
  proof
    assume "undefined_at (h' a) ''momentum'' i"
    then show ?thesis by (simp add: undefined_at_def m)
  next
    assume k: "(dict_get (params_or params momentum_defaults ''lookback_period'') (PInt 20)) = PInt k \<and> int i < k"
    with n have "n = k" by (simp add: periods_of_def)
    with k ic show ?thesis by (simp add: pct_change_warm)
  qed
  then show ?thesis
    using ic by (simp add: signal_at_def g nth_loc_assign)
qed

lemma rsi_warmup:
  assumes run: "rsi_divergence a params h = (Inr r, h')" and i: "i < nrows (h a)"
    and cond: "undefined_at (h' a) ''rsi'' i \<or> undefined_at (h a) ''Close'' i \<or>
               warming (dict_get (params_or params rsi_defaults ''period'') (PInt 14)) i \<or>
               (window_of (dict_get (params_or params rsi_defaults ''divergence_period'') (PInt 20)) = Inr d \<and>
                  (i < d \<or> undefined_at (h' a) ''rsi'' (i - d) \<or>
                   undefined_at (h a) ''Close'' (i - d) \<or>
                   warming (dict_get (params_or params rsi_defaults ''period'') (PInt 14)) (i - d)))"
  shows "signal_at (h' a) i = Some (Fin 0)"
proof -
  from run obtain c n dp where
    c: "h a ''Close'' = Some c" and
    n: "window_of (dict_get (params_or params rsi_defaults ''period'') (PInt 14)) = Inr n" and
    dp: "window_of (dict_get (params_or params rsi_defaults ''divergence_period'') (PInt 20)) = Inr dp" and
    rs: "h' a ''rsi'' = Some (rsi_series c n)" and
    g: "h' a ''signal'' = Some
       (loc_assign (mask_and (mask_and (series_cmp fgt c (shift c (int dp))) (series_cmp flt (rsi_series c n) (shift (rsi_series c n) (int dp)))) (map (\<lambda>r. fgt r (Fin 60)) (rsi_series c n))) (Fin (- 1))
         (loc_assign (mask_and (mask_and (series_cmp flt c (shift c (int dp))) (series_cmp fgt (rsi_series c n) (shift (rsi_series c n) (int dp)))) (map (\<lambda>r. flt r (Fin 40)) (rsi_series c n))) (Fin 1)
           (replicate (length c) (Fin 0))))"
    by (rule rsi_result)
  from i c have ic: "i < length c" by (simp add: nrows_Close)
  then have id: "i - dp < length c" by simp
  have now: "undefined_at (h' a) ''rsi'' i \<or> warming (dict_get (params_or params rsi_defaults ''period'') (PInt 14)) i \<Longrightarrow> rsi_series c n ! i = NaN"
    using rsi_series_warm[OF ic, of n] by (auto simp: undefined_at_def warming_def rs n)
  have past: "undefined_at (h' a) ''rsi'' (i - dp) \<or> warming (dict_get (params_or params rsi_defaults ''period'') (PInt 14)) (i - dp) \<Longrightarrow>
      rsi_series c n ! (i - dp) = NaN"
    using rsi_series_warm[OF id, of n] by (auto simp: undefined_at_def warming_def rs n)
  have sh: "\<not> i < dp \<Longrightarrow> shift c (int dp) ! i = c ! (i - dp) \<and>
      shift (rsi_series c n) (int dp) ! i = rsi_series c n ! (i - dp)"
    using ic by (simp add: shift_past)
  from cond have "rsi_series c n ! i = NaN \<or> c ! i = NaN \<or>
      shift c (int dp) ! i = NaN \<or> shift (rsi_series c n) (int dp) ! i = NaN"
  proof (elim disjE conjE)
    assume "undefined_at (h' a) ''rsi'' i"
    with now show ?thesis by simp
  next
    assume "undefined_at (h a) ''Close'' i"
    then show ?thesis by (simp add: undefined_at_def c)
  next
    assume "warming (dict_get (params_or params rsi_defaults ''period'') (PInt 14)) i"
    with now show ?thesis by simp
  next
    assume "window_of (dict_get (params_or params rsi_defaults ''divergence_period'') (PInt 20)) = Inr d" "i < d"
    with dp ic show ?thesis by (simp add: shift_warm)
  next
    assume d: "window_of (dict_get (params_or params rsi_defaults ''divergence_period'') (PInt 20)) = Inr d"
      and u: "undefined_at (h' a) ''rsi'' (i - d)"
    show ?thesis
    proof (cases "i < dp")
      case True
      with ic show ?thesis by (simp add: shift_warm)
    next
      case False
      with d dp u past sh show ?thesis by simp
    qed
  next
    assume d: "window_of (dict_get (params_or params rsi_defaults ''divergence_period'') (PInt 20)) = Inr d"
      and u: "undefined_at (h a) ''Close'' (i - d)"
    show ?thesis
    proof (cases "i < dp")
      case True
      with ic show ?thesis by (simp add: shift_warm)
    next
      case False
      with d dp u sh show ?thesis by (simp add: undefined_at_def c)
    qed
  next
    assume d: "window_of (dict_get (params_or params rsi_defaults ''divergence_period'') (PInt 20)) = Inr d"
      and u: "warming (dict_get (params_or params rsi_defaults ''period'') (PInt 14)) (i - d)"
    show ?thesis
    proof (cases "i < dp")
      case True
      with ic show ?thesis by (simp add: shift_warm)
    next
      case False
      with d dp u past sh show ?thesis by simp
    qed
  qed
  then have "\<not> (mask_and (mask_and (series_cmp flt c (shift c (int dp))) (series_cmp fgt (rsi_series c n) (shift (rsi_series c n) (int dp)))) (map (\<lambda>r. flt r (Fin 40)) (rsi_series c n))) ! i" "\<not> (mask_and (mask_and (series_cmp fgt c (shift c (int dp))) (series_cmp flt (rsi_series c n) (shift (rsi_series c n) (int dp)))) (map (\<lambda>r. fgt r (Fin 60)) (rsi_series c n))) ! i"
    using ic by (auto simp: nth_mask_and nth_series_cmp)
  then show ?thesis
    using ic by (simp add: signal_at_def g nth_loc_assign)
qed

lemma macd_warmup:
  assumes run: "macd_crossover a params h = (Inr r, h')" and i: "i < nrows (h a)"
    and cond: "i = 0 \<or> undefined_at (h' a) ''macd'' i \<or> undefined_at (h' a) ''macd_signal'' i \<or>
               undefined_at (h' a) ''macd'' (i - 1) \<or> undefined_at (h' a) ''macd_signal'' (i - 1)"
  shows "signal_at (h' a) i = Some (Fin 0)"
proof -
  from run obtain c af as ag where
    c: "h a ''Close'' = Some c" and
    m: "h' a ''macd'' = Some (series_op fsub (ewm_mean c af) (ewm_mean c as))" and
    ms: "h' a ''macd_signal'' = Some (ewm_mean (series_op fsub (ewm_mean c af) (ewm_mean c as)) ag)" and
    g: "h' a ''signal'' = Some
       (loc_assign (mask_and (series_cmp flt (series_op fsub (ewm_mean c af) (ewm_mean c as)) (ewm_mean (series_op fsub (ewm_mean c af) (ewm_mean c as)) ag)) (series_cmp fge (shift (series_op fsub (ewm_mean c af) (ewm_mean c as)) 1) (shift (ewm_mean (series_op fsub (ewm_mean c af) (ewm_mean c as)) ag) 1))) (Fin (- 1))
         (loc_assign (mask_and (series_cmp fgt (series_op fsub (ewm_mean c af) (ewm_mean c as)) (ewm_mean (series_op fsub (ewm_mean c af) (ewm_mean c as)) ag)) (series_cmp fle (shift (series_op fsub (ewm_mean c af) (ewm_mean c as)) 1) (shift (ewm_mean (series_op fsub (ewm_mean c af) (ewm_mean c as)) ag) 1))) (Fin 1)
           (replicate (length c) (Fin 0))))"
    by (rule macd_result)
  from i c have ic: "i < length c" by (simp add: nrows_Close)
  have sh: "0 < i \<Longrightarrow> shift (series_op fsub (ewm_mean c af) (ewm_mean c as)) 1 ! i = (series_op fsub (ewm_mean c af) (ewm_mean c as)) ! (i - 1) \<and>
      shift (ewm_mean (series_op fsub (ewm_mean c af) (ewm_mean c as)) ag) 1 ! i = (ewm_mean (series_op fsub (ewm_mean c af) (ewm_mean c as)) ag) ! (i - 1)"
    using ic shift_past[of 1 i "(series_op fsub (ewm_mean c af) (ewm_mean c as))"] shift_past[of 1 i "(ewm_mean (series_op fsub (ewm_mean c af) (ewm_mean c as)) ag)"] by simp
  have z: "i = 0 \<Longrightarrow> shift (series_op fsub (ewm_mean c af) (ewm_mean c as)) 1 ! i = NaN"
    using ic shift_warm[of 0 "(series_op fsub (ewm_mean c af) (ewm_mean c as))" 1] by simp
  from cond have "(series_op fsub (ewm_mean c af) (ewm_mean c as)) ! i = NaN \<or> (ewm_mean (series_op fsub (ewm_mean c af) (ewm_mean c as)) ag) ! i = NaN \<or>
      shift (series_op fsub (ewm_mean c af) (ewm_mean c as)) 1 ! i = NaN \<or> shift (ewm_mean (series_op fsub (ewm_mean c af) (ewm_mean c as)) ag) 1 ! i = NaN"
  proof (cases "i = 0")
    case True
    with z show ?thesis by simp
  next
    case False
    with cond sh show ?thesis by (auto simp: undefined_at_def m ms)
  qed
  then have "\<not> (mask_and (series_cmp fgt (series_op fsub (ewm_mean c af) (ewm_mean c as)) (ewm_mean (series_op fsub (ewm_mean c af) (ewm_mean c as)) ag)) (series_cmp fle (shift (series_op fsub (ewm_mean c af) (ewm_mean c as)) 1) (shift (ewm_mean (series_op fsub (ewm_mean c af) (ewm_mean c as)) ag) 1))) ! i" "\<not> (mask_and (series_cmp flt (series_op fsub (ewm_mean c af) (ewm_mean c as)) (ewm_mean (series_op fsub (ewm_mean c af) (ewm_mean c as)) ag)) (series_cmp fge (shift (series_op fsub (ewm_mean c af) (ewm_mean c as)) 1) (shift (ewm_mean (series_op fsub (ewm_mean c af) (ewm_mean c as)) ag) 1))) ! i"
    using ic by (auto simp: nth_mask_and nth_series_cmp)
  then show ?thesis
    using ic by (simp add: signal_at_def g nth_loc_assign)
qed

lemma ma_returns:
  assumes "h a ''Close'' = Some c"
    and "window_of (dict_get (params_or params ma_defaults ''fast_period'') (PInt 10)) = Inr fw"
    and "window_of (dict_get (params_or params ma_defaults ''slow_period'') (PInt 20)) = Inr sw"
  shows "fst (moving_average_crossover a params h) = Inr a"
  using assms by (simp add: moving_average_crossover_def prog_defs Let_def)

lemma mr_returns:
  assumes "h a ''Close'' = Some c"
    and "window_of (dict_get (params_or params mr_defaults ''bb_period'') (PInt 20)) = Inr w"
    and "window_of (dict_get (params_or params mr_defaults ''rsi_period'') (PInt 14)) = Inr n"
  shows "fst (mean_reversion a params h) = Inr a"
  using assms by (simp add: mean_reversion_def bollinger_columns_eq prog_defs Let_def)

lemma momentum_returns:
  assumes "h a ''Close'' = Some c"
    and "periods_of (dict_get (params_or params momentum_defaults ''lookback_period'') (PInt 20)) = Inr k"
  shows "fst (momentum a params h) = Inr a"
  using assms by (simp add: momentum_def prog_defs Let_def)

lemma bb_returns:
  assumes "h a ''Close'' = Some c"
    and "window_of (dict_get (params_or params bb_defaults ''period'') (PInt 20)) = Inr w"
  shows "fst (bollinger_bands a params h) = Inr a"
  using assms by (simp add: bollinger_bands_def bollinger_columns_eq prog_defs Let_def)

lemma rsi_returns:
  assumes "h a ''Close'' = Some c"
    and "window_of (dict_get (params_or params rsi_defaults ''period'') (PInt 14)) = Inr n"
    and "window_of (dict_get (params_or params rsi_defaults ''divergence_period'') (PInt 20)) = Inr d"
  shows "fst (rsi_divergence a params h) = Inr a"
  using assms by (simp add: rsi_divergence_def prog_defs Let_def)

lemma macd_returns:
  assumes "h a ''Close'' = Some c"
    and "span_alpha (dict_get (params_or params macd_defaults ''fast'') (PInt 12)) = Inr af"
    and "span_alpha (dict_get (params_or params macd_defaults ''slow'') (PInt 26)) = Inr as"
    and "span_alpha (dict_get (params_or params macd_defaults ''signal'') (PInt 9)) = Inr ag"
  shows "fst (macd_crossover a params h) = Inr a"
  using assms by (simp add: macd_crossover_def prog_defs Let_def)

text \<open>
  Claim C8.  For each of the six strategies and every bar of a run that returns: when
  a value that one of the strategy's comparisons reads at the bar is undefined (NaN),
  or the bar lies in the warm-up of one of its windows, the signal at that bar is 0.
  The values read are the indicator columns at the bar itself and, where the strategy
  compares with a shifted column, the columns at the bar the shift points back to:
  \<open>rsi\<close> and \<open>Close\<close> at bar \<open>i - divergence_period\<close> for the RSI divergence,
  \<open>macd\<close> and \<open>macd_signal\<close> at bar \<open>i - 1\<close> for the MACD crossover.  A warm-up
  is a rolling window that is not yet full, at the bar or at the bar the shift points
  back to, or a shift or lookback that reaches before the first bar.  And no strategy
  raises on a short series: with a \<open>Close\<close> column of any length and parameters
  pandas accepts, it returns the frame.  In the last of the runs checked after it the RSI
  window is 2 and the shift is 1: at bar 1 the RSI is 100 and the shifted RSI is
  undefined.
\<close>

theorem warmup_signal_is_zero:
  "(moving_average_crossover a params h = (Inr r, h') \<and> i < nrows (h a) \<and>
      (undefined_at (h' a) ''fast_ma'' i \<or> undefined_at (h' a) ''slow_ma'' i \<or>
       warming (dict_get (params_or params ma_defaults ''fast_period'') (PInt 10)) i \<or>
       warming (dict_get (params_or params ma_defaults ''slow_period'') (PInt 20)) i) \<longrightarrow>
      signal_at (h' a) i = Some (Fin 0)) \<and>
   (mean_reversion a params h = (Inr r, h') \<and> i < nrows (h a) \<and>
      (undefined_at (h' a) ''bb_lower'' i \<or> undefined_at (h' a) ''bb_upper'' i \<or>
       undefined_at (h' a) ''rsi'' i \<or>
       warming (dict_get (params_or params mr_defaults ''bb_period'') (PInt 20)) i \<or>
       warming (dict_get (params_or params mr_defaults ''rsi_period'') (PInt 14)) i) \<longrightarrow>
      signal_at (h' a) i = Some (Fin 0)) \<and>
   (momentum a params h = (Inr r, h') \<and> i < nrows (h a) \<and>
      (undefined_at (h' a) ''momentum'' i \<or>
       ((dict_get (params_or params momentum_defaults ''lookback_period'') (PInt 20)) = PInt k \<and> int i < k)) \<longrightarrow>
      signal_at (h' a) i = Some (Fin 0)) \<and>
   (bollinger_bands a params h = (Inr r, h') \<and> i < nrows (h a) \<and>
      (undefined_at (h' a) ''bb_lower'' i \<or> undefined_at (h' a) ''bb_upper'' i \<or>
       warming (dict_get (params_or params bb_defaults ''period'') (PInt 20)) i) \<longrightarrow>
      signal_at (h' a) i = Some (Fin 0)) \<and>
   (rsi_divergence a params h = (Inr r, h') \<and> i < nrows (h a) \<and>
      (undefined_at (h' a) ''rsi'' i \<or> undefined_at (h a) ''Close'' i \<or>
       warming (dict_get (params_or params rsi_defaults ''period'') (PInt 14)) i \<or>
       (window_of (dict_get (params_or params rsi_defaults ''divergence_period'') (PInt 20)) = Inr d \<and>
          (i < d \<or> undefined_at (h' a) ''rsi'' (i - d) \<or>
           undefined_at (h a) ''Close'' (i - d) \<or>
           warming (dict_get (params_or params rsi_defaults ''period'') (PInt 14)) (i - d)))) \<longrightarrow>
      signal_at (h' a) i = Some (Fin 0)) \<and>
   (macd_crossover a params h = (Inr r, h') \<and> i < nrows (h a) \<and>
      (i = 0 \<or> undefined_at (h' a) ''macd'' i \<or> undefined_at (h' a) ''macd_signal'' i \<or>
       undefined_at (h' a) ''macd'' (i - 1) \<or> undefined_at (h' a) ''macd_signal'' (i - 1)) \<longrightarrow>
      signal_at (h' a) i = Some (Fin 0)) \<and>
   (h a ''Close'' = Some c \<and>
      window_of (dict_get (params_or params ma_defaults ''fast_period'') (PInt 10)) = Inr fw \<and>
      window_of (dict_get (params_or params ma_defaults ''slow_period'') (PInt 20)) = Inr sw \<longrightarrow>
      fst (moving_average_crossover a params h) = Inr a) \<and>
   (h a ''Close'' = Some c \<and>
      window_of (dict_get (params_or params mr_defaults ''bb_period'') (PInt 20)) = Inr w \<and>
      window_of (dict_get (params_or params mr_defaults ''rsi_period'') (PInt 14)) = Inr n \<longrightarrow>
      fst (mean_reversion a params h) = Inr a) \<and>
   (h a ''Close'' = Some c \<and>
      periods_of (dict_get (params_or params momentum_defaults ''lookback_period'') (PInt 20)) = Inr k \<longrightarrow>
      fst (momentum a params h) = Inr a) \<and>
   (h a ''Close'' = Some c \<and>
      window_of (dict_get (params_or params bb_defaults ''period'') (PInt 20)) = Inr w \<longrightarrow>
      fst (bollinger_bands a params h) = Inr a) \<and>
   (h a ''Close'' = Some c \<and>
      window_of (dict_get (params_or params rsi_defaults ''period'') (PInt 14)) = Inr n \<and>
      window_of (dict_get (params_or params rsi_defaults ''divergence_period'') (PInt 20)) = Inr d \<longrightarrow>
      fst (rsi_divergence a params h) = Inr a) \<and>
   (h a ''Close'' = Some c \<and>
      span_alpha (dict_get (params_or params macd_defaults ''fast'') (PInt 12)) = Inr af \<and>
      span_alpha (dict_get (params_or params macd_defaults ''slow'') (PInt 26)) = Inr as \<and>
      span_alpha (dict_get (params_or params macd_defaults ''signal'') (PInt 9)) = Inr ag \<longrightarrow>
      fst (macd_crossover a params h) = Inr a)"
  apply (intro conjI impI)
  subgoal by (elim conjE) (rule ma_warmup; assumption)
  subgoal by (elim conjE) (rule mr_warmup; assumption)
  subgoal by (elim conjE) (rule momentum_warmup; assumption)
  subgoal by (elim conjE) (rule bb_warmup; assumption)
  subgoal by (elim conjE) (rule rsi_warmup; assumption)
  subgoal by (elim conjE) (rule macd_warmup; assumption)
  subgoal by (elim conjE) (rule ma_returns; assumption)
  subgoal by (elim conjE) (rule mr_returns; assumption)
  subgoal by (elim conjE) (rule momentum_returns; assumption)
  subgoal by (elim conjE) (rule bb_returns; assumption)
  subgoal by (elim conjE) (rule rsi_returns; assumption)
  subgoal by (elim conjE) (rule macd_returns; assumption)
  done

theorem warmup_signal_is_zero_witness:
  "fst (moving_average_crossover 0 None ((\<lambda>_. Map.empty)(0 := [''Close'' \<mapsto> [Fin 10, Fin 11, Fin 12]]))) = Inr 0 \<and>
   signal_at (snd (moving_average_crossover 0 None ((\<lambda>_. Map.empty)(0 := [''Close'' \<mapsto> [Fin 10, Fin 11, Fin 12]]))) 0) 2 = Some (Fin 0) \<and>
   fst (bollinger_bands 0 None ((\<lambda>_. Map.empty)(0 := [''Close'' \<mapsto> [Fin 10, Fin 11, Fin 12]]))) = Inr 0 \<and>
   signal_at (snd (bollinger_bands 0 None ((\<lambda>_. Map.empty)(0 := [''Close'' \<mapsto> [Fin 10, Fin 11, Fin 12]]))) 0) 2 = Some (Fin 0) \<and>
   fst (rsi_divergence 0 (Some [''period'' \<mapsto> PInt 2, ''divergence_period'' \<mapsto> PInt 1]) ((\<lambda>_. Map.empty)(0 := [''Close'' \<mapsto> [Fin 10, Fin 11, Fin 12]]))) = Inr 0 \<and>
   rsi_series [Fin 10, Fin 11, Fin 12] 2 = [NaN, Fin 100, Fin 100] \<and>
   signal_at (snd (rsi_divergence 0 (Some [''period'' \<mapsto> PInt 2, ''divergence_period'' \<mapsto> PInt 1]) ((\<lambda>_. Map.empty)(0 := [''Close'' \<mapsto> [Fin 10, Fin 11, Fin 12]]))) 0) 1 = Some (Fin 0)"
proof -
  let ?H = "((\<lambda>_. Map.empty)(0 := [''Close'' \<mapsto> [Fin 10, Fin 11, Fin 12]]))"
  let ?P = "Some [''period'' \<mapsto> PInt 2, ''divergence_period'' \<mapsto> PInt 1]"
  have c: "?H 0 ''Close'' = Some [Fin 10, Fin 11, Fin 12]" by simp
  have n: "2 < nrows (?H 0)" by (simp add: nrows_def)
  have n1: "1 < nrows (?H 0)" by (simp add: nrows_def)
  have wf: "window_of (dict_get (params_or None ma_defaults ''fast_period'') (PInt 10)) = Inr 10"
    and ws: "window_of (dict_get (params_or None ma_defaults ''slow_period'') (PInt 20)) = Inr 20"
    and wb: "window_of (dict_get (params_or None bb_defaults ''period'') (PInt 20)) = Inr 20"
    by (simp_all add: param_eval ma_defaults_def bb_defaults_def)
  have wp: "window_of (dict_get (params_or ?P rsi_defaults ''period'') (PInt 14)) = Inr 2"
    and wd: "window_of (dict_get (params_or ?P rsi_defaults ''divergence_period'') (PInt 20)) = Inr 1"
    by (simp_all add: param_eval)
  note T = warmup_signal_is_zero[where a = 0 and params = None and h = ?H and i = 2
      and c = "[Fin 10, Fin 11, Fin 12]" and fw = 10 and sw = 20 and w = 20]
  have m1: "fst (moving_average_crossover 0 None ?H) = Inr 0"
    by (rule T[THEN conjunct2, THEN conjunct2, THEN conjunct2, THEN conjunct2, THEN conjunct2, THEN conjunct2, THEN conjunct1, THEN mp]) (intro conjI c wf ws)
  have b1: "fst (bollinger_bands 0 None ?H) = Inr 0"
    by (rule T[THEN conjunct2, THEN conjunct2, THEN conjunct2, THEN conjunct2, THEN conjunct2, THEN conjunct2, THEN conjunct2, THEN conjunct2, THEN conjunct2, THEN conjunct1, THEN mp]) (intro conjI c wb)
  note TR = warmup_signal_is_zero[where a = 0 and params = ?P and h = ?H
      and c = "[Fin 10, Fin 11, Fin 12]" and n = 2 and d = 1]
  have r1: "fst (rsi_divergence 0 ?P ?H) = Inr 0"
    by (rule TR[THEN conjunct2, THEN conjunct2, THEN conjunct2, THEN conjunct2, THEN conjunct2, THEN conjunct2, THEN conjunct2, THEN conjunct2, THEN conjunct2, THEN conjunct2, THEN conjunct1, THEN mp]) (intro conjI c wp wd)
  have mrun: "moving_average_crossover 0 None ?H = (Inr 0, snd (moving_average_crossover 0 None ?H))"
    using m1 by (metis prod.collapse)
  have brun: "bollinger_bands 0 None ?H = (Inr 0, snd (bollinger_bands 0 None ?H))"
    using b1 by (metis prod.collapse)
  have rrun: "rsi_divergence 0 ?P ?H = (Inr 0, snd (rsi_divergence 0 ?P ?H))"
    using r1 by (metis prod.collapse)
  have wm: "warming (dict_get (params_or None ma_defaults ''fast_period'') (PInt 10)) 2"
    by (simp add: warming_def wf)
  have wbb: "warming (dict_get (params_or None bb_defaults ''period'') (PInt 20)) 2"
    by (simp add: warming_def wb)
  have wr: "warming (dict_get (params_or ?P rsi_defaults ''period'') (PInt 14)) (1 - 1)"
    by (simp add: warming_def wp)
  note TM = warmup_signal_is_zero[where a = 0 and params = None and h = ?H and i = 2
      and r = 0 and h' = "snd (moving_average_crossover 0 None ?H)"]
  note TB = warmup_signal_is_zero[where a = 0 and params = None and h = ?H and i = 2
      and r = 0 and h' = "snd (bollinger_bands 0 None ?H)"]
  note TS = warmup_signal_is_zero[where a = 0 and params = ?P and h = ?H and i = 1
      and d = 1 and r = 0 and h' = "snd (rsi_divergence 0 ?P ?H)"]
  have m2: "signal_at (snd (moving_average_crossover 0 None ?H) 0) 2 = Some (Fin 0)"
    apply (rule TM[THEN conjunct1, THEN mp])
    apply (intro conjI)
      apply (rule mrun)
     apply (rule n)
    apply (rule disjI2, rule disjI2, rule disjI1, rule wm)
    done
  have b2: "signal_at (snd (bollinger_bands 0 None ?H) 0) 2 = Some (Fin 0)"
    apply (rule TB[THEN conjunct2, THEN conjunct2, THEN conjunct2, THEN conjunct1, THEN mp])
    apply (intro conjI)
      apply (rule brun)
     apply (rule n)
    apply (rule disjI2, rule disjI2, rule wbb)
    done
  have r2: "signal_at (snd (rsi_divergence 0 ?P ?H) 0) 1 = Some (Fin 0)"
    apply (rule TS[THEN conjunct2, THEN conjunct2, THEN conjunct2, THEN conjunct2, THEN conjunct1, THEN mp])
    apply (intro conjI)
      apply (rule rrun)
     apply (rule n1)
    apply (rule disjI2, rule disjI2, rule disjI2, rule conjI, rule wd)
    apply (rule disjI2, rule disjI2, rule disjI2, rule wr)
    done
  have r3: "rsi_series [Fin 10, Fin 11, Fin 12] 2 = [NaN, Fin 100, Fin 100]"
    by (simp add: rsi_series_def rsi_gain_def rsi_loss_def Let_def series_eval inf_signed_def
          numeral_2_eq_2 upt_rec)
  from m1 m2 b1 b2 r1 r3 r2 show ?thesis by (intro conjI)
qed

lemma metrics_ratios:
  assumes "calculate_performance_metrics eq ts ps cfg = Inr res"
  shows "volatility (metrics res) = volatility_of eq \<and>
         sharpe_ratio (metrics res) = sharpe_ratio_of eq \<and>
         sortino_ratio (metrics res) = sortino_ratio_of eq \<and>
         max_drawdown (metrics res) = max_drawdown_of eq \<and>
         (\<exists>tr. total_return_of eq (cfg_initial_capital cfg) = Inr tr \<and>
               calmar_ratio (metrics res) = calmar_ratio_of tr (max_drawdown_of eq))"
  using assms
  by (auto simp: calculate_performance_metrics_def Let_def split: if_splits sum.splits)

text \<open>
  Three equal closes and the window 2: at the last bar the average loss is 0, the
  average gain is 0, and the RSI is NaN, not a chosen value.
\<close>

theorem rsi_flat_prices_counterexample:
  "rsi_loss [Fin 5, Fin 5, Fin 5] 2 ! 2 = Fin 0 \<and> rsi_series [Fin 5, Fin 5, Fin 5] 2 ! 2 = NaN"
  by (simp add: rsi_series_def rsi_gain_def rsi_loss_def Let_def series_eval inf_signed_def
        numeral_2_eq_2)

text \<open>
  Claim C6, as amended.  In the analyzer's result the Sharpe ratio is 0 when the
  volatility is 0, the Sortino ratio is 0 when the downside deviation is 0 (as it is
  when no daily return is negative), and the Calmar ratio is 0 when the maximum
  drawdown is 0.  The RSI has no rule of its own for a zero average loss: the quotient
  \<open>gain / loss\<close> is taken as it is, so the RSI is 100 when the average gain is
  positive (the quotient is infinite) and undefined (NaN) when the average gain is 0
  too, as on the flat prices above.
\<close>

theorem degenerate_fallbacks:
  "(calculate_performance_metrics eq ts ps cfg = Inr res \<longrightarrow>
      (volatility (metrics res) = Fin 0 \<longrightarrow> sharpe_ratio (metrics res) = Fin 0) \<and>
      (downside_deviation_of eq = Fin 0 \<longrightarrow> sortino_ratio (metrics res) = Fin 0) \<and>
      (filter (\<lambda>r. flt r (Fin 0)) (daily_returns_of eq) = [] \<longrightarrow>
          downside_deviation_of eq = Fin 0) \<and>
      (max_drawdown (metrics res) = Fin 0 \<longrightarrow> calmar_ratio (metrics res) = Fin 0)) \<and>
   (i < length c \<and> rsi_loss c n ! i = Fin 0 \<and> rsi_gain c n ! i = Fin g \<and> 0 < g \<longrightarrow>
      rsi_series c n ! i = Fin 100) \<and>
   (i < length c \<and> rsi_loss c n ! i = Fin 0 \<and> rsi_gain c n ! i = Fin 0 \<longrightarrow>
      rsi_series c n ! i = NaN)"
proof (intro conjI impI)
  assume m: "calculate_performance_metrics eq ts ps cfg = Inr res"
  note r = metrics_ratios[OF m]
  show "sharpe_ratio (metrics res) = Fin 0" if "volatility (metrics res) = Fin 0"
    using that r by (simp add: sharpe_ratio_of_def Let_def fgt_def)
  show "sortino_ratio (metrics res) = Fin 0" if "downside_deviation_of eq = Fin 0"
    using that r by (simp add: sortino_ratio_of_def Let_def fgt_def)
  show "downside_deviation_of eq = Fin 0"
    if "filter (\<lambda>r. flt r (Fin 0)) (daily_returns_of eq) = []"
    using that by (simp add: downside_deviation_of_def Let_def)
  show "calmar_ratio (metrics res) = Fin 0" if "max_drawdown (metrics res) = Fin 0"
    using that r by (auto simp: calmar_ratio_of_def feq_def)
next
  assume "i < length c \<and> rsi_loss c n ! i = Fin 0 \<and> rsi_gain c n ! i = Fin g \<and> 0 < g"
  then show "rsi_series c n ! i = Fin 100"
    by (simp add: nth_rsi_series inf_signed_def fsub_def)
next
  assume "i < length c \<and> rsi_loss c n ! i = Fin 0 \<and> rsi_gain c n ! i = Fin 0"
  then show "rsi_series c n ! i = NaN"
    by (simp add: nth_rsi_series inf_signed_def)
qed


lemmas np_eval = daily_returns_of_def np_divide_def np_std_def np_mean_def fsum_def
  volatility_of_def max_drawdown_of_def maximum_accumulate_def np_maximum_def np_min_def
  np_minimum_def downside_deviation_of_def fsub_def Let_def

theorem degenerate_fallbacks_witness:
  "\<exists>res. calculate_performance_metrics [Fin 100, Fin 100, Fin 100] [] [] default_config = Inr res \<and>
         sharpe_ratio (metrics res) = Fin 0 \<and> sortino_ratio (metrics res) = Fin 0 \<and>
         calmar_ratio (metrics res) = Fin 0 \<and>
         rsi_series [Fin 1, Fin 2, Fin 4] 2 ! 2 = Fin 100 \<and>
         rsi_series [Fin 5, Fin 5, Fin 5] 2 ! 2 = NaN"
proof -
  let ?E = "[Fin 100, Fin 100, Fin 100]"
  obtain res where m: "calculate_performance_metrics ?E [] [] default_config = Inr res"
    using metrics_returns[of ?E default_config "[]" "[]"] by auto
  note r = metrics_ratios[OF m]
  have vol: "volatility (metrics res) = Fin 0"
    using r by (simp add: np_eval)
  have dd: "downside_deviation_of ?E = Fin 0"
    by (simp add: np_eval)
  have mdd: "max_drawdown (metrics res) = Fin 0"
    using r by (simp add: np_eval)
  note T = degenerate_fallbacks[where eq = ?E and ts = "[]" and ps = "[]" and cfg = default_config
      and res = res]
  from T[THEN conjunct1, THEN mp, OF m] vol dd mdd
  have a: "sharpe_ratio (metrics res) = Fin 0 \<and> sortino_ratio (metrics res) = Fin 0 \<and>
         calmar_ratio (metrics res) = Fin 0"
    by blast
  have g1: "2 < length [Fin 1, Fin 2, Fin 4 :: fval] \<and> rsi_loss [Fin 1, Fin 2, Fin 4] 2 ! 2 = Fin 0 \<and>
      rsi_gain [Fin 1, Fin 2, Fin 4] 2 ! 2 = Fin (3 / 2) \<and> (0::real) < 3 / 2"
    by (simp add: rsi_gain_def rsi_loss_def series_eval numeral_2_eq_2)
  have g2: "2 < length [Fin 5, Fin 5, Fin 5 :: fval] \<and> rsi_loss [Fin 5, Fin 5, Fin 5] 2 ! 2 = Fin 0 \<and>
      rsi_gain [Fin 5, Fin 5, Fin 5] 2 ! 2 = Fin 0"
    by (simp add: rsi_gain_def rsi_loss_def series_eval numeral_2_eq_2)
  have b: "rsi_series [Fin 1, Fin 2, Fin 4] 2 ! 2 = Fin 100"
    by (rule degenerate_fallbacks[where i = 2 and c = "[Fin 1, Fin 2, Fin 4]" and n = 2
          and g = "3 / 2", THEN conjunct2, THEN conjunct1, THEN mp, OF g1])
  have c: "rsi_series [Fin 5, Fin 5, Fin 5] 2 ! 2 = NaN"
    by (rule degenerate_fallbacks[where i = 2 and c = "[Fin 5, Fin 5, Fin 5]" and n = 2,
          THEN conjunct2, THEN conjunct2, THEN mp, OF g2])
  from m a b c show ?thesis by blast
qed

lemma frame_ret: "frame_ok a W (ret x)"
  by (simp add: frame_ok_def ret_def)

lemma frame_lift: "frame_ok a W (lift r)"
  by (simp add: frame_ok_def lift_def)

lemma frame_get_col: "frame_ok a W (get_col a k)"
  by (auto simp: frame_ok_def get_col_def split: option.splits)

lemma frame_set_col: "k \<in> W \<Longrightarrow> frame_ok a W (set_col a k c)"
  by (auto simp: frame_ok_def set_col_def)

lemma frame_set_const: "k \<in> W \<Longrightarrow> frame_ok a W (set_const a k v)"
  by (auto simp: frame_ok_def set_const_def)

lemma frame_pbind:
  assumes "frame_ok a W p" "\<And>x. frame_ok a W (f x)"
  shows "frame_ok a W (pbind p f)"
  unfolding frame_ok_def
proof (intro allI impI)
  fix h res h' assume run: "pbind p f h = (res, h')"
  obtain r1 h1 where p: "p h = (r1, h1)" by (cases "p h")
  from assms(1) p have s1: "(\<forall>b. b \<noteq> a \<longrightarrow> h1 b = h b) \<and> (\<forall>k. k \<notin> W \<longrightarrow> h1 a k = h a k)"
    by (simp add: frame_ok_def)
  show "(\<forall>b. b \<noteq> a \<longrightarrow> h' b = h b) \<and> (\<forall>k. k \<notin> W \<longrightarrow> h' a k = h a k)"
  proof (cases r1)
    case (Inl e)
    with run p have "h' = h1" by (simp add: pbind_def)
    with s1 show ?thesis by simp
  next
    case (Inr x)
    with run p have "f x h1 = (res, h')" by (simp add: pbind_def)
    with assms(2)[of x] have "(\<forall>b. b \<noteq> a \<longrightarrow> h' b = h1 b) \<and> (\<forall>k. k \<notin> W \<longrightarrow> h' a k = h1 a k)"
      by (simp add: frame_ok_def)
    with s1 show ?thesis by simp
  qed
qed

lemma frame_loc_set: "k \<in> W \<Longrightarrow> frame_ok a W (loc_set a m k v)"
  unfolding loc_set_def by (intro frame_pbind frame_get_col frame_set_col)

lemmas frame_rules = frame_pbind frame_ret frame_lift frame_get_col

lemma frame_bollinger_columns:
  assumes "{''bb_middle'', ''bb_std'', ''bb_upper'', ''bb_lower''} \<subseteq> W"
  shows "frame_ok a W (bollinger_columns a period mult)"
  unfolding bollinger_columns_def
  using assms by (intro frame_rules frame_set_col) auto

lemma frame_ma:
  "frame_ok a (writes ''moving-average-crossover'') (moving_average_crossover a params)"
  unfolding moving_average_crossover_def Let_def
  by (intro frame_rules frame_set_col frame_set_const frame_loc_set) (simp_all add: writes_def)

lemma frame_mr: "frame_ok a (writes ''mean-reversion'') (mean_reversion a params)"
  unfolding mean_reversion_def Let_def
  by (intro frame_rules frame_set_col frame_set_const frame_loc_set frame_bollinger_columns)
     (simp_all add: writes_def)

lemma frame_momentum: "frame_ok a (writes ''momentum'') (momentum a params)"
  unfolding momentum_def Let_def
  by (intro frame_rules frame_set_col frame_set_const frame_loc_set) (simp_all add: writes_def)

lemma frame_bb: "frame_ok a (writes ''bollinger-bands'') (bollinger_bands a params)"
  unfolding bollinger_bands_def Let_def
  by (intro frame_rules frame_set_col frame_set_const frame_loc_set frame_bollinger_columns)
     (simp_all add: writes_def)

lemma frame_rsi: "frame_ok a (writes ''rsi-divergence'') (rsi_divergence a params)"
  unfolding rsi_divergence_def Let_def
  by (intro frame_rules frame_set_col frame_set_const frame_loc_set) (simp_all add: writes_def)

lemma frame_macd: "frame_ok a (writes ''macd-crossover'') (macd_crossover a params)"
  unfolding macd_crossover_def Let_def
  by (intro frame_rules frame_set_col frame_set_const frame_loc_set) (simp_all add: writes_def)

lemma ma_outputs:
  assumes "moving_average_crossover a params h = (Inr r, h')"
  shows "r = a \<and> (\<exists>sg. h' a ''signal'' = Some sg \<and> h' a ''position'' = Some (diff_s sg))"
  using assms
  by (auto simp: moving_average_crossover_def prog_defs Let_def split: option.splits sum.splits)

lemma mr_outputs:
  assumes "mean_reversion a params h = (Inr r, h')"
  shows "r = a \<and> (\<exists>sg. h' a ''signal'' = Some sg \<and> h' a ''position'' = Some (diff_s sg))"
  using assms
  by (auto simp: mean_reversion_def bollinger_columns_eq prog_defs Let_def split: option.splits sum.splits)

lemma momentum_outputs:
  assumes "momentum a params h = (Inr r, h')"
  shows "r = a \<and> (\<exists>sg. h' a ''signal'' = Some sg \<and> h' a ''position'' = Some (diff_s sg))"
  using assms
  by (auto simp: momentum_def prog_defs Let_def split: option.splits sum.splits)

lemma bb_outputs:
  assumes "bollinger_bands a params h = (Inr r, h')"
  shows "r = a \<and> (\<exists>sg. h' a ''signal'' = Some sg \<and> h' a ''position'' = Some (diff_s sg))"
  using assms
  by (auto simp: bollinger_bands_def bollinger_columns_eq prog_defs Let_def split: option.splits sum.splits)

lemma rsi_outputs:
  assumes "rsi_divergence a params h = (Inr r, h')"
  shows "r = a \<and> (\<exists>sg. h' a ''signal'' = Some sg \<and> h' a ''position'' = Some (diff_s sg))"
  using assms
  by (auto simp: rsi_divergence_def prog_defs Let_def split: option.splits sum.splits)

lemma macd_outputs:
  assumes "macd_crossover a params h = (Inr r, h')"
  shows "r = a \<and> (\<exists>sg. h' a ''signal'' = Some sg \<and> h' a ''position'' = Some (diff_s sg))"
  using assms
  by (auto simp: macd_crossover_def prog_defs Let_def split: option.splits sum.splits)

lemma strategies_Some:
  "strategies ''moving-average-crossover'' = Some moving_average_crossover"
  "strategies ''mean-reversion'' = Some mean_reversion"
  "strategies ''momentum'' = Some momentum"
  "strategies ''bollinger-bands'' = Some bollinger_bands"
  "strategies ''rsi-divergence'' = Some rsi_divergence"
  "strategies ''macd-crossover'' = Some macd_crossover"
  by (simp_all add: strategies_def)

lemma Close_not_written: "''Close'' \<notin> writes strategy_name"
  by (simp add: writes_def)

lemma ma_determined:
  assumes "g a ''Close'' = h a ''Close''"
  shows "fst (moving_average_crossover a params g) = fst (moving_average_crossover a params h)"
    and "fst (moving_average_crossover a params h) = Inr r \<Longrightarrow> k \<in> writes ''moving-average-crossover'' \<Longrightarrow>
         snd (moving_average_crossover a params g) a k = snd (moving_average_crossover a params h) a k \<and>
         snd (moving_average_crossover a params h) a k \<noteq> None"
  using assms
  by (auto simp: moving_average_crossover_def prog_defs Let_def writes_def
        split: option.splits sum.splits)

lemma momentum_determined:
  assumes "g a ''Close'' = h a ''Close''"
  shows "fst (momentum a params g) = fst (momentum a params h)"
    and "fst (momentum a params h) = Inr r \<Longrightarrow> k \<in> writes ''momentum'' \<Longrightarrow>
         snd (momentum a params g) a k = snd (momentum a params h) a k \<and>
         snd (momentum a params h) a k \<noteq> None"
  using assms
  by (auto simp: momentum_def prog_defs Let_def writes_def
        split: option.splits sum.splits)

lemma mr_determined:
  assumes "g a ''Close'' = h a ''Close''"
  shows "fst (mean_reversion a params g) = fst (mean_reversion a params h)"
    and "fst (mean_reversion a params h) = Inr r \<Longrightarrow> k \<in> writes ''mean-reversion'' \<Longrightarrow>
         snd (mean_reversion a params g) a k = snd (mean_reversion a params h) a k \<and>
         snd (mean_reversion a params h) a k \<noteq> None"
  using assms
  by (auto simp: mean_reversion_def bollinger_columns_eq prog_defs Let_def writes_def
        split: option.splits sum.splits)

lemma bb_determined:
  assumes "g a ''Close'' = h a ''Close''"
  shows "fst (bollinger_bands a params g) = fst (bollinger_bands a params h)"
    and "fst (bollinger_bands a params h) = Inr r \<Longrightarrow> k \<in> writes ''bollinger-bands'' \<Longrightarrow>
         snd (bollinger_bands a params g) a k = snd (bollinger_bands a params h) a k \<and>
         snd (bollinger_bands a params h) a k \<noteq> None"
  using assms
  by (auto simp: bollinger_bands_def bollinger_columns_eq prog_defs Let_def writes_def
        split: option.splits sum.splits)

lemma rsi_determined:
  assumes "g a ''Close'' = h a ''Close''"
  shows "fst (rsi_divergence a params g) = fst (rsi_divergence a params h)"
    and "fst (rsi_divergence a params h) = Inr r \<Longrightarrow> k \<in> writes ''rsi-divergence'' \<Longrightarrow>
         snd (rsi_divergence a params g) a k = snd (rsi_divergence a params h) a k \<and>
         snd (rsi_divergence a params h) a k \<noteq> None"
  using assms
  by (auto simp: rsi_divergence_def prog_defs Let_def writes_def
        split: option.splits sum.splits)

lemma macd_determined:
  assumes "g a ''Close'' = h a ''Close''"
  shows "fst (macd_crossover a params g) = fst (macd_crossover a params h)"
    and "fst (macd_crossover a params h) = Inr r \<Longrightarrow> k \<in> writes ''macd-crossover'' \<Longrightarrow>
         snd (macd_crossover a params g) a k = snd (macd_crossover a params h) a k \<and>
         snd (macd_crossover a params h) a k \<noteq> None"
  using assms
  by (auto simp: macd_crossover_def prog_defs Let_def writes_def
        split: option.splits sum.splits)


lemma strategy_determined:
  assumes "g a ''Close'' = h a ''Close''"
  shows "fst (execute_strategy strategy_name a params g) = fst (execute_strategy strategy_name a params h)"
    and "fst (execute_strategy strategy_name a params h) = Inr r \<Longrightarrow> k \<in> writes strategy_name \<Longrightarrow>
         snd (execute_strategy strategy_name a params g) a k =
           snd (execute_strategy strategy_name a params h) a k \<and>
         snd (execute_strategy strategy_name a params h) a k \<noteq> None"
proof -
  have "fst (execute_strategy strategy_name a params g) = fst (execute_strategy strategy_name a params h) \<and>
      (fst (execute_strategy strategy_name a params h) = Inr r \<longrightarrow> k \<in> writes strategy_name \<longrightarrow>
         snd (execute_strategy strategy_name a params g) a k =
           snd (execute_strategy strategy_name a params h) a k \<and>
         snd (execute_strategy strategy_name a params h) a k \<noteq> None)"
  proof (cases "strategy_name \<in> {''moving-average-crossover'', ''mean-reversion'', ''momentum'',
             ''bollinger-bands'', ''rsi-divergence'', ''macd-crossover''}")
    case False
    then have "strategies strategy_name = None" by (rule strategies_None)
    then show ?thesis by (simp add: execute_strategy_def lift_def)
  next
    case True
    then show ?thesis
      apply (elim insertE emptyE)
      subgoal using assms ma_determined(1)[of g a h params] ma_determined(2)[of g a h params r k]
        by (simp add: execute_strategy_def strategies_Some)
      subgoal using assms mr_determined(1)[of g a h params] mr_determined(2)[of g a h params r k]
        by (simp add: execute_strategy_def strategies_Some)
      subgoal using assms momentum_determined(1)[of g a h params] momentum_determined(2)[of g a h params r k]
        by (simp add: execute_strategy_def strategies_Some)
      subgoal using assms bb_determined(1)[of g a h params] bb_determined(2)[of g a h params r k]
        by (simp add: execute_strategy_def strategies_Some)
      subgoal using assms rsi_determined(1)[of g a h params] rsi_determined(2)[of g a h params r k]
        by (simp add: execute_strategy_def strategies_Some)
      subgoal using assms macd_determined(1)[of g a h params] macd_determined(2)[of g a h params r k]
        by (simp add: execute_strategy_def strategies_Some)
      done
  qed
  then show "fst (execute_strategy strategy_name a params g) = fst (execute_strategy strategy_name a params h)"
    and "fst (execute_strategy strategy_name a params h) = Inr r \<Longrightarrow> k \<in> writes strategy_name \<Longrightarrow>
         snd (execute_strategy strategy_name a params g) a k =
           snd (execute_strategy strategy_name a params h) a k \<and>
         snd (execute_strategy strategy_name a params h) a k \<noteq> None"
    by simp_all
qed

lemma returns_writes_signal:
  assumes "fst (execute_strategy strategy_name a params h) = Inr r"
  shows "''signal'' \<in> writes strategy_name \<and> ''position'' \<in> writes strategy_name"
proof (cases "strategy_name \<in> {''moving-average-crossover'', ''mean-reversion'', ''momentum'',
             ''bollinger-bands'', ''rsi-divergence'', ''macd-crossover''}")
  case False
  then have "strategies strategy_name = None" by (rule strategies_None)
  with assms show ?thesis by (simp add: execute_strategy_def lift_def)
next
  case True
  then show ?thesis by (auto simp: writes_def)
qed

text \<open>
  Claim C4, as amended.  A strategy run through \<open>execute_strategy\<close> works on the
  frame it is given.  Whether it returns or raises, it changes no other frame and, in
  its own frame, only the columns it writes (\<open>writes\<close>); \<open>Close\<close> is never
  among them.  When it returns, it returns the reference it received, and every column
  it writes is then in that frame, \<open>signal\<close> and \<open>position\<close> among them, the
  latter the difference of consecutive signals.  What it writes is determined by the
  \<open>Close\<close> column and the parameters alone: started on any store \<open>g\<close> whose
  frame has the same \<open>Close\<close> column, the strategy ends the same way and leaves
  the same written columns, whatever those columns held before.  So a column that was
  missing is added and one that was there is overwritten.  For two calls on one frame
  this gives: the second call, run on the frame the first one left, ends as it would on
  the untouched frame and leaves the columns it writes, \<open>signal\<close> and
  \<open>position\<close> among them, as it would there; of the first call's signal nothing
  remains.
\<close>

theorem strategies_mutate_in_place:
  assumes "execute_strategy strategy_name a params h = (res, h')"
  shows "(\<forall>b. b \<noteq> a \<longrightarrow> h' b = h b) \<and>
         (\<forall>k. k \<notin> writes strategy_name \<longrightarrow> h' a k = h a k) \<and>
         h' a ''Close'' = h a ''Close'' \<and>
         (\<forall>r. res = Inr r \<longrightarrow>
            r = a \<and> (\<exists>sg. h' a ''signal'' = Some sg \<and> h' a ''position'' = Some (diff_s sg))) \<and>
         (\<forall>r. res = Inr r \<longrightarrow>
            ''signal'' \<in> writes strategy_name \<and> ''position'' \<in> writes strategy_name \<and>
            (\<forall>k \<in> writes strategy_name. h' a k \<noteq> None)) \<and>
         (g a ''Close'' = h a ''Close'' \<and> execute_strategy strategy_name a params g = (res2, g') \<longrightarrow>
            res2 = res \<and>
            (\<forall>r. res = Inr r \<longrightarrow> (\<forall>k \<in> writes strategy_name. g' a k = h' a k))) \<and>
         (execute_strategy name2 a params2 h' = (res3, h3) \<and>
          execute_strategy name2 a params2 h = (res4, h4) \<longrightarrow>
            res3 = res4 \<and>
            (\<forall>r. res4 = Inr r \<longrightarrow>
               (\<forall>k \<in> writes name2. h3 a k = h4 a k) \<and>
               h3 a ''signal'' = h4 a ''signal'' \<and> h3 a ''position'' = h4 a ''position''))"
proof -
  have frame: "frame_ok a (writes strategy_name) (execute_strategy strategy_name a params)"
  proof (cases "strategy_name \<in> {''moving-average-crossover'', ''mean-reversion'', ''momentum'',
             ''bollinger-bands'', ''rsi-divergence'', ''macd-crossover''}")
    case False
    then have "strategies strategy_name = None" by (rule strategies_None)
    then show ?thesis by (simp add: execute_strategy_def frame_lift)
  next
    case True
    then show ?thesis
      using frame_ma[of a params] frame_mr[of a params] frame_momentum[of a params]
        frame_bb[of a params] frame_rsi[of a params] frame_macd[of a params]
      by (auto simp: execute_strategy_def strategies_Some)
  qed
  have out: "r = a \<and> (\<exists>sg. h' a ''signal'' = Some sg \<and> h' a ''position'' = Some (diff_s sg))"
    if "res = Inr r" for r
  proof (cases "strategy_name \<in> {''moving-average-crossover'', ''mean-reversion'', ''momentum'',
             ''bollinger-bands'', ''rsi-divergence'', ''macd-crossover''}")
    case False
    then have "strategies strategy_name = None" by (rule strategies_None)
    with assms that show ?thesis by (simp add: execute_strategy_def lift_def)
  next
    case True
    with assms that show ?thesis
      using ma_outputs[of a params h r h'] mr_outputs[of a params h r h']
        momentum_outputs[of a params h r h'] bb_outputs[of a params h r h']
        rsi_outputs[of a params h r h'] macd_outputs[of a params h r h']
      by (auto simp: execute_strategy_def strategies_Some)
  qed
  from frame assms have f: "(\<forall>b. b \<noteq> a \<longrightarrow> h' b = h b) \<and>
      (\<forall>k. k \<notin> writes strategy_name \<longrightarrow> h' a k = h a k)"
    by (simp add: frame_ok_def)
  then have cl: "h' a ''Close'' = h a ''Close''" using Close_not_written by blast
  from assms have fs: "fst (execute_strategy strategy_name a params h) = res"
    and sn: "snd (execute_strategy strategy_name a params h) = h'" by simp_all
  have present: "''signal'' \<in> writes strategy_name \<and> ''position'' \<in> writes strategy_name \<and>
      (\<forall>k \<in> writes strategy_name. h' a k \<noteq> None)" if "res = Inr r" for r
    using that returns_writes_signal[of strategy_name a params h r]
      strategy_determined(2)[of h a h strategy_name params r] fs sn by simp
  have det: "res2 = res \<and> (\<forall>r. res = Inr r \<longrightarrow> (\<forall>k \<in> writes strategy_name. g' a k = h' a k))"
    if "g a ''Close'' = h a ''Close''" "execute_strategy strategy_name a params g = (res2, g')"
    using that strategy_determined(1)[of g a h strategy_name params]
      strategy_determined(2)[of g a h strategy_name params] fs sn by simp
  have seq: "res3 = res4 \<and>
      (\<forall>r. res4 = Inr r \<longrightarrow>
         (\<forall>k \<in> writes name2. h3 a k = h4 a k) \<and>
         h3 a ''signal'' = h4 a ''signal'' \<and> h3 a ''position'' = h4 a ''position'')"
    if r3: "execute_strategy name2 a params2 h' = (res3, h3)"
      and r4: "execute_strategy name2 a params2 h = (res4, h4)"
  proof -
    from r3 r4 cl have e: "res3 = res4"
      using strategy_determined(1)[of h' a h name2 params2] by simp
    have w: "\<forall>k \<in> writes name2. h3 a k = h4 a k" if "res4 = Inr r" for r
      using that r3 r4 cl strategy_determined(2)[of h' a h name2 params2 r] by simp
    have m: "''signal'' \<in> writes name2 \<and> ''position'' \<in> writes name2" if "res4 = Inr r" for r
      using that r4 returns_writes_signal[of name2 a params2 h r] by simp
    from e w m show ?thesis by blast
  qed
  from f cl out present det seq show ?thesis by blast
qed


lemmas strategy_eval = execute_strategy_def strategies_def moving_average_crossover_def
  momentum_def ma_defaults_def momentum_defaults_def prog_defs Let_def param_eval series_eval
  pct_change_def

text \<open>
  The run behind the amendment of C4.  A frame with the closes 1, 3, 3, 4 has no
  \<open>signal\<close> column.  The moving-average crossover returns the reference it was given
  and the frame now holds the signal column 0, 1, 0, 1: the input was changed.  The
  momentum strategy, run next on the same reference, replaces that column with
  0, 1, 0, 0, so the result of the first call is changed by the second.
\<close>

theorem shared_frame_counterexample:
  "(((\<lambda>_. Map.empty)(0 := [''Close'' \<mapsto> [Fin 1, Fin 3, Fin 3, Fin 4]])) :: heap) 0 ''signal''
     = None \<and>
   fst (execute_strategy ''moving-average-crossover'' 0
          (Some [''fast_period'' \<mapsto> PInt 1, ''slow_period'' \<mapsto> PInt 2])
          ((\<lambda>_. Map.empty)(0 := [''Close'' \<mapsto> [Fin 1, Fin 3, Fin 3, Fin 4]]))) = Inr 0 \<and>
   snd (execute_strategy ''moving-average-crossover'' 0
          (Some [''fast_period'' \<mapsto> PInt 1, ''slow_period'' \<mapsto> PInt 2])
          ((\<lambda>_. Map.empty)(0 := [''Close'' \<mapsto> [Fin 1, Fin 3, Fin 3, Fin 4]]))) 0 ''signal''
     = Some [Fin 0, Fin 1, Fin 0, Fin 1] \<and>
   snd (execute_strategy ''momentum'' 0
          (Some [''lookback_period'' \<mapsto> PInt 1, ''threshold'' \<mapsto> PInt 1])
          (snd (execute_strategy ''moving-average-crossover'' 0
                  (Some [''fast_period'' \<mapsto> PInt 1, ''slow_period'' \<mapsto> PInt 2])
                  ((\<lambda>_. Map.empty)(0 := [''Close'' \<mapsto> [Fin 1, Fin 3, Fin 3, Fin 4]]))))) 0 ''signal''
     = Some [Fin 0, Fin 1, Fin 0, Fin 0]"
  by (simp add: strategy_eval)


theorem strategies_mutate_in_place_witness:
  "fst (execute_strategy ''moving-average-crossover'' 0 (Some [''fast_period'' \<mapsto> PInt 1, ''slow_period'' \<mapsto> PInt 2])
        ((\<lambda>_. Map.empty)(0 := [''Close'' \<mapsto> [Fin 1, Fin 3, Fin 3, Fin 4]], 1 := [''Close'' \<mapsto> [Fin 7]]))) = Inr 0 \<and>
   snd (execute_strategy ''moving-average-crossover'' 0 (Some [''fast_period'' \<mapsto> PInt 1, ''slow_period'' \<mapsto> PInt 2])
        ((\<lambda>_. Map.empty)(0 := [''Close'' \<mapsto> [Fin 1, Fin 3, Fin 3, Fin 4]], 1 := [''Close'' \<mapsto> [Fin 7]]))) 0 ''Close'' = Some [Fin 1, Fin 3, Fin 3, Fin 4] \<and>
   snd (execute_strategy ''moving-average-crossover'' 0 (Some [''fast_period'' \<mapsto> PInt 1, ''slow_period'' \<mapsto> PInt 2])
        ((\<lambda>_. Map.empty)(0 := [''Close'' \<mapsto> [Fin 1, Fin 3, Fin 3, Fin 4]], 1 := [''Close'' \<mapsto> [Fin 7]]))) 1 ''Close'' = Some [Fin 7] \<and>
   (\<exists>sg. snd (execute_strategy ''moving-average-crossover'' 0 (Some [''fast_period'' \<mapsto> PInt 1, ''slow_period'' \<mapsto> PInt 2])
        ((\<lambda>_. Map.empty)(0 := [''Close'' \<mapsto> [Fin 1, Fin 3, Fin 3, Fin 4]], 1 := [''Close'' \<mapsto> [Fin 7]]))) 0 ''signal'' = Some sg \<and>
         snd (execute_strategy ''moving-average-crossover'' 0 (Some [''fast_period'' \<mapsto> PInt 1, ''slow_period'' \<mapsto> PInt 2])
        ((\<lambda>_. Map.empty)(0 := [''Close'' \<mapsto> [Fin 1, Fin 3, Fin 3, Fin 4]], 1 := [''Close'' \<mapsto> [Fin 7]]))) 0 ''position'' = Some (diff_s sg)) \<and>
   snd (execute_strategy ''moving-average-crossover'' 0 (Some [''fast_period'' \<mapsto> PInt 1, ''slow_period'' \<mapsto> PInt 2])
        ((\<lambda>_. Map.empty)(0 := [''Close'' \<mapsto> [Fin 1, Fin 3, Fin 3, Fin 4]], 1 := [''Close'' \<mapsto> [Fin 7]]))) 0 ''fast_ma'' \<noteq> None \<and>
   snd (execute_strategy ''moving-average-crossover'' 0 (Some [''fast_period'' \<mapsto> PInt 1, ''slow_period'' \<mapsto> PInt 2])
        ((\<lambda>_. Map.empty)(0 := [''Close'' \<mapsto> [Fin 1, Fin 3, Fin 3, Fin 4], ''signal'' \<mapsto> [Fin 9, Fin 9, Fin 9, Fin 9]]))) 0 ''signal'' =
     snd (execute_strategy ''moving-average-crossover'' 0 (Some [''fast_period'' \<mapsto> PInt 1, ''slow_period'' \<mapsto> PInt 2])
        ((\<lambda>_. Map.empty)(0 := [''Close'' \<mapsto> [Fin 1, Fin 3, Fin 3, Fin 4]], 1 := [''Close'' \<mapsto> [Fin 7]]))) 0 ''signal'' \<and>
   snd (execute_strategy ''momentum'' 0 (Some [''lookback_period'' \<mapsto> PInt 1, ''threshold'' \<mapsto> PInt 1])
        (snd (execute_strategy ''moving-average-crossover'' 0 (Some [''fast_period'' \<mapsto> PInt 1, ''slow_period'' \<mapsto> PInt 2])
        ((\<lambda>_. Map.empty)(0 := [''Close'' \<mapsto> [Fin 1, Fin 3, Fin 3, Fin 4]], 1 := [''Close'' \<mapsto> [Fin 7]]))))) 0 ''signal'' =
     snd (execute_strategy ''momentum'' 0 (Some [''lookback_period'' \<mapsto> PInt 1, ''threshold'' \<mapsto> PInt 1])
        ((\<lambda>_. Map.empty)(0 := [''Close'' \<mapsto> [Fin 1, Fin 3, Fin 3, Fin 4]], 1 := [''Close'' \<mapsto> [Fin 7]]))) 0 ''signal''"
proof -
  let ?H = "((\<lambda>_. Map.empty)(0 := [''Close'' \<mapsto> [Fin 1, Fin 3, Fin 3, Fin 4]], 1 := [''Close'' \<mapsto> [Fin 7]])) :: heap"
  let ?G = "((\<lambda>_. Map.empty)(0 := [''Close'' \<mapsto> [Fin 1, Fin 3, Fin 3, Fin 4], ''signal'' \<mapsto> [Fin 9, Fin 9, Fin 9, Fin 9]])) :: heap"
  let ?E = "execute_strategy ''moving-average-crossover'' 0 (Some [''fast_period'' \<mapsto> PInt 1, ''slow_period'' \<mapsto> PInt 2]) ?H"
  let ?EG = "execute_strategy ''moving-average-crossover'' 0 (Some [''fast_period'' \<mapsto> PInt 1, ''slow_period'' \<mapsto> PInt 2]) ?G"
  let ?E3 = "execute_strategy ''momentum'' 0 (Some [''lookback_period'' \<mapsto> PInt 1, ''threshold'' \<mapsto> PInt 1]) (snd ?E)"
  let ?E4 = "execute_strategy ''momentum'' 0 (Some [''lookback_period'' \<mapsto> PInt 1, ''threshold'' \<mapsto> PInt 1]) ?H"
  have run: "?E = (fst ?E, snd ?E)" by simp
  have f: "fst ?E = Inr 0" by (simp add: strategy_eval)
  have f4: "fst ?E4 = Inr 0" by (simp add: strategy_eval)
  note T = strategies_mutate_in_place[where g = ?G and ?res2.0 = "fst ?EG" and g' = "snd ?EG"
      and ?name2.0 = "''momentum''" and ?params2.0 = "Some [''lookback_period'' \<mapsto> PInt 1, ''threshold'' \<mapsto> PInt 1]"
      and ?res3.0 = "fst ?E3" and ?h3.0 = "snd ?E3" and ?res4.0 = "fst ?E4" and ?h4.0 = "snd ?E4",
      OF run]
  have n: "(1::nat) \<noteq> 0" by simp
  have other: "snd ?E 1 = ?H 1"
    by (rule T[THEN conjunct1, THEN spec, THEN mp, OF n])
  have cl: "snd ?E 0 ''Close'' = ?H 0 ''Close''"
    by (rule T[THEN conjunct2, THEN conjunct2, THEN conjunct1])
  have out: "\<exists>sg. snd ?E 0 ''signal'' = Some sg \<and> snd ?E 0 ''position'' = Some (diff_s sg)"
    by (rule T[THEN conjunct2, THEN conjunct2, THEN conjunct2, THEN conjunct1, THEN spec, THEN mp, OF f, THEN conjunct2])
  have wf: "''fast_ma'' \<in> writes ''moving-average-crossover''"
    and ws: "''signal'' \<in> writes ''moving-average-crossover''"
    by (simp_all add: writes_def)
  have pres: "snd ?E 0 ''fast_ma'' \<noteq> None"
    by (rule T[THEN conjunct2, THEN conjunct2, THEN conjunct2, THEN conjunct2, THEN conjunct1, THEN spec, THEN mp, OF f, THEN conjunct2,
          THEN conjunct2, THEN bspec, OF wf])
  have gh: "?G 0 ''Close'' = ?H 0 ''Close'' \<and> ?EG = (fst ?EG, snd ?EG)" by simp
  have det: "snd ?EG 0 ''signal'' = snd ?E 0 ''signal''"
    by (rule T[THEN conjunct2, THEN conjunct2, THEN conjunct2, THEN conjunct2, THEN conjunct2, THEN conjunct1, THEN mp, OF gh, THEN conjunct2, THEN spec, THEN mp,
          OF f, THEN bspec, OF ws])
  have two: "?E3 = (fst ?E3, snd ?E3) \<and> ?E4 = (fst ?E4, snd ?E4)" by simp
  have seq: "snd ?E3 0 ''signal'' = snd ?E4 0 ''signal''"
    by (rule T[THEN conjunct2, THEN conjunct2, THEN conjunct2, THEN conjunct2, THEN conjunct2, THEN conjunct2, THEN mp, OF two, THEN conjunct2, THEN spec, THEN mp,
          OF f4, THEN conjunct2, THEN conjunct1])
  have h1: "?H 1 ''Close'' = Some [Fin 7]" by simp
  have h0: "?H 0 ''Close'' = Some [Fin 1, Fin 3, Fin 3, Fin 4]" by simp
  have o1: "snd ?E 1 ''Close'' = Some [Fin 7]" by (simp only: other h1)
  have c0: "snd ?E 0 ''Close'' = Some [Fin 1, Fin 3, Fin 3, Fin 4]" by (simp only: cl h0)
  show ?thesis by (intro conjI f c0 o1 out pres det seq)
qed

end
